theory Spec2Isabelle
  imports Main "HOL-Library.Word"
begin

unbundle bit_operations_syntax

section \<open>The stream state machine (stream.go)\<close>

subsection \<open>States, actions and the transition table\<close>

text \<open>
  \<^verbatim>\<open>StreamState\<close> and \<^verbatim>\<open>StreamAction\<close> are Go bytes with four and six declared
  constants. The model has exactly the declared constants.
\<close>

datatype StreamState = STATE_WAITPUBLISH | STATE_PUBLISHING | STATE_WAITCLOSE | STATE_CLOSED

datatype StreamAction =
  ACTION_PUBLISH | ACTION_TIMEOUT | ACTION_PUBLISHLOST | ACTION_CLOSE | ACTION_LASTLEAVE | ACTION_FIRSTENTER

text \<open>
  \<^verbatim>\<open>StreamFSM\<close> is an array of four Go maps, indexed by the current state; a key that
  is absent from the map is a lookup with \<^verbatim>\<open>ok = false\<close>, here \<open>None\<close>.
\<close>

fun StreamFSM :: "StreamState \<Rightarrow> StreamAction \<Rightarrow> StreamState option" where
  "StreamFSM STATE_WAITPUBLISH ACTION_PUBLISH = Some STATE_PUBLISHING"
| "StreamFSM STATE_WAITPUBLISH ACTION_TIMEOUT = Some STATE_CLOSED"
| "StreamFSM STATE_WAITPUBLISH ACTION_LASTLEAVE = Some STATE_CLOSED"
| "StreamFSM STATE_WAITPUBLISH ACTION_CLOSE = Some STATE_CLOSED"
| "StreamFSM STATE_PUBLISHING ACTION_PUBLISHLOST = Some STATE_WAITPUBLISH"
| "StreamFSM STATE_PUBLISHING ACTION_LASTLEAVE = Some STATE_WAITCLOSE"
| "StreamFSM STATE_PUBLISHING ACTION_CLOSE = Some STATE_CLOSED"
| "StreamFSM STATE_WAITCLOSE ACTION_PUBLISHLOST = Some STATE_CLOSED"
| "StreamFSM STATE_WAITCLOSE ACTION_TIMEOUT = Some STATE_CLOSED"
| "StreamFSM STATE_WAITCLOSE ACTION_FIRSTENTER = Some STATE_PUBLISHING"
| "StreamFSM STATE_WAITCLOSE ACTION_CLOSE = Some STATE_CLOSED"
| "StreamFSM _ _ = None"

text \<open>
  The table of section 4.5 of the specification, row by row, as a list of
  (from, action, to) triples. It is written from the specification's words and is only
  compared with \<open>StreamFSM\<close>; no operation of the model reads it.
\<close>

definition spec_table :: "(StreamState \<times> StreamAction \<times> StreamState) list" where
  "spec_table =
    [(STATE_WAITPUBLISH, ACTION_PUBLISH, STATE_PUBLISHING),
     (STATE_WAITPUBLISH, ACTION_TIMEOUT, STATE_CLOSED),
     (STATE_WAITPUBLISH, ACTION_LASTLEAVE, STATE_CLOSED),
     (STATE_WAITPUBLISH, ACTION_CLOSE, STATE_CLOSED),
     (STATE_PUBLISHING, ACTION_PUBLISHLOST, STATE_WAITPUBLISH),
     (STATE_PUBLISHING, ACTION_LASTLEAVE, STATE_WAITCLOSE),
     (STATE_PUBLISHING, ACTION_CLOSE, STATE_CLOSED),
     (STATE_WAITCLOSE, ACTION_PUBLISHLOST, STATE_CLOSED),
     (STATE_WAITCLOSE, ACTION_TIMEOUT, STATE_CLOSED),
     (STATE_WAITCLOSE, ACTION_FIRSTENTER, STATE_PUBLISHING),
     (STATE_WAITCLOSE, ACTION_CLOSE, STATE_CLOSED)]"

subsection \<open>Collaborators: publisher, subscribers, tracks\<close>

text \<open>\<^verbatim>\<open>time.Duration\<close> is a signed count of nanoseconds.\<close>

type_synonym Duration = int

definition Millisecond :: Duration where
  "Millisecond = 1000000"

definition Second :: Duration where
  "Second = 1000000000"

text \<open>
  A publisher behind the \<^verbatim>\<open>IPublisher\<close> interface: its identity (the interface value
  compared by \<^verbatim>\<open>s.Publisher == v.Value\<close>), the three fields of its configuration that
  stream.go reads, and the answer of \<^verbatim>\<open>IsClosed()\<close>.
\<close>

record IPublisher =
  pubId :: nat
  WaitCloseTimeout :: Duration
  PubAudio :: bool
  PubVideo :: bool
  pubClosed :: bool

text \<open>
  A subscriber behind \<^verbatim>\<open>ISubscriber\<close>: identity, the configuration fields that
  stream.go reads, the URL arguments (\<^verbatim>\<open>io.Args.Get\<close> gives the empty string for a
  missing key) and the answer of \<^verbatim>\<open>IsClosed()\<close>.
\<close>

record ISubscriber =
  subId :: nat
  WaitTimeout :: Duration
  SubAudio :: bool
  SubVideo :: bool
  SubAudioTracks :: "string list"
  SubVideoTracks :: "string list"
  SubAudioArgName :: string
  SubVideoArgName :: string
  SubDataArgName :: string
  Args :: "(string \<times> string) list"
  subClosed :: bool

datatype TrackKind = KindVideo | KindAudio | KindData

datatype TrackStatus = TrackStateOnline | TrackStateOffline

text \<open>
  A track as the stream sees it: its identity (the pointer that \<^verbatim>\<open>SetIDR\<close> compares
  with \<^verbatim>\<open>MainVideo\<close>), its name (\<^verbatim>\<open>GetBase().Name\<close>), its dynamic type
  (\<^verbatim>\<open>*track.Video\<close>, \<^verbatim>\<open>*track.Audio\<close>, \<^verbatim>\<open>*track.Data\<close>), the state set by
  \<^verbatim>\<open>SetStuff(TrackStateOffline)\<close>, and how often \<^verbatim>\<open>Narrow()\<close> was called on it.
\<close>

record Track =
  trackId :: nat
  Name :: string
  Kind :: TrackKind
  trackState :: TrackStatus
  narrowed :: nat

record StateEvent =
  Action :: StreamAction
  From :: StreamState

text \<open>
  \<^verbatim>\<open>StateEvent\<close> also carries the target stream and a wall-clock stamp
  (\<^verbatim>\<open>time.Now()\<close>); neither is read by stream.go and both are left out.
\<close>

datatype Event =
  SEwaitPublish StateEvent "IPublisher option"
| SErepublish StateEvent
| SEpublish StateEvent
| SEwaitClose StateEvent
| SEclose StateEvent

datatype Err = ErrStreamIsClosed | ErrBadStreamName | ErrBadTrackName

text \<open>
  Values handed to \<^verbatim>\<open>Broadcast\<close> and \<^verbatim>\<open>OnEvent\<close>, which take \<^verbatim>\<open>any\<close>: a state
  event, a track, the promise of a subscribe request (named by its number) or a
  subscriber.
\<close>

datatype Payload =
  PEvent Event
| PTrack Track
| PSubscribe nat
| PSubscriber nat

text \<open>
  What a call does outside the Stream's own fields is appended to the stream's trace,
  one entry per call, in program order.
\<close>

datatype Effect =
  LogTransition StreamState StreamState StreamAction
| LogDebug string
| LogInfo string
| LogError string
| OnPublisherLost StateEvent
| Broadcast Payload
| EventBus Event
| PublisherOnEvent Payload
| SubscriberOnEvent nat Payload
| StreamsDelete string
| Resolve nat
| Reject nat Err
| DisposeTrack string
| DisposeSubscribers

datatype Timer = Armed Duration | Stopped

text \<open>
  The waits of one subscription (\<^verbatim>\<open>waitTracks\<close>): the promise of the subscribe
  request and, for audio, video and data, \<open>None\<close> when nothing is waited for,
  \<open>Some names\<close> while one of \<open>names\<close> is waited for (the empty list: any name).
\<close>

record waitTracks =
  waitPromise :: nat
  audio :: "string list option"
  video :: "string list option"
  data :: "string list option"

record Subscribers =
  public :: "(ISubscriber \<times> waitTracks) list"
  internal :: "(ISubscriber \<times> waitTracks) list"
  waitAborted :: bool

text \<open>
  Modelled from the spec: subscribers.go is not among the sources. Section 4.7:
  "Pick(): return any one subscriber or nil", here the first one in the model's order,
  public before internal; \<^verbatim>\<open>Len()\<close> counts the subscribers.
\<close>

definition Pick :: "Subscribers \<Rightarrow> ISubscriber option" where
  "Pick ss = (case map fst (public ss @ internal ss) of [] \<Rightarrow> None | sub # _ \<Rightarrow> Some sub)"

definition Len :: "Subscribers \<Rightarrow> nat" where
  "Len ss = length (public ss) + length (internal ss)"

text \<open>
  \<^verbatim>\<open>Tracks\<close>: the map from names to tracks, as a list of pairs with distinct names
  (Go's map has no order; the list keeps the order of insertion), and \<^verbatim>\<open>MainVideo\<close>,
  a pointer to a video track, as that track's identity.
\<close>

record Tracks =
  Map :: "(string \<times> Track) list"
  MainVideo :: "nat option"

text \<open>
  What travels on the action queue, which is a \<^verbatim>\<open>chan any\<close>: the Go types that the
  type switch of \<^verbatim>\<open>run\<close> tells apart. A promise is named by a number and carries its
  \<^verbatim>\<open>Value\<close>; the value of a publish request may be nil (\<open>None\<close>). A nil subscriber
  or track is not modelled: the first method call on it panics.
\<close>

datatype Item =
  SubPulse ISubscriber
| PromisePublisher nat "IPublisher option"
| PromiseSubscriber nat ISubscriber
| Unsubscribe ISubscriber
| TrackRemoved Track
| PromiseTrack nat Track
| NoMoreTrack
| BareAction StreamAction
| UnknownItem

text \<open>
  Modelled from the spec: \<^verbatim>\<open>util.SafeChan\<close> is not among the sources. Section 3: "a
  single Action queue"; section 4.5: "close the action queue (spin-close: retry every
  100 ms until the queue is closed so pending senders observe the closure)". The queue
  holds the items sent and not yet received, and whether it is closed; \<^verbatim>\<open>Send\<close> on a
  closed queue returns false, else it appends and returns true. That a sender waits
  while the queue is full is not modelled.
\<close>

record SafeChan =
  chanItems :: "Item list"
  chanClosed :: bool

definition Send :: "SafeChan \<Rightarrow> Item \<Rightarrow> bool \<times> SafeChan" where
  "Send ch v = (if chanClosed ch then (False, ch) else (True, ch\<lparr>chanItems := chanItems ch @ [v]\<rparr>))"

record Stream =
  timeout :: Timer
  actionChan :: SafeChan
  PublishTimeout :: Duration
  DelayCloseTimeout :: Duration
  IdleTimeout :: Duration
  Path :: string
  Publisher :: "IPublisher option"
  State :: StreamState
  SEHistory :: "StateEvent list"
  Subscribers :: Subscribers
  Tracks :: Tracks
  AppName :: string
  StreamName :: string
  trace :: "Effect list"

definition emit :: "Effect list \<Rightarrow> Stream \<Rightarrow> Stream" where
  "emit es r = r\<lparr>trace := trace r @ es\<rparr>"

text \<open>\<^verbatim>\<open>event.Next()\<close>: the lookup \<^verbatim>\<open>StreamFSM[event.From][event.Action]\<close>.\<close>

definition Next :: "StateEvent \<Rightarrow> StreamState option" where
  "Next event = StreamFSM (From event) (Action event)"

text \<open>
  \<^verbatim>\<open>r.Tracks.Range(func(name, t) { t.SetStuff(TrackStateOffline) })\<close>.
\<close>

definition setTracksOffline :: "Tracks \<Rightarrow> Tracks" where
  "setTracksOffline ts = ts\<lparr>Map := map (\<lambda>(n, t). (n, t\<lparr>trackState := TrackStateOffline\<rparr>)) (Map ts)\<rparr>"

text \<open>
  The spin loop \<^verbatim>\<open>for !r.actionChan.Close() { time.Sleep(100ms) }\<close>. Whether a call
  of \<^verbatim>\<open>Close()\<close> succeeds depends on the senders that are inside \<^verbatim>\<open>Send\<close> at that
  moment, so the outcomes of the successive calls are an input, \<open>closes\<close>. The loop
  ends at the first \<open>True\<close>; when the outcomes run out before one is \<open>True\<close> the loop
  has not ended and the result is \<open>None\<close>. The result counts the sleeps.
\<close>

fun spinClose :: "bool list \<Rightarrow> nat option" where
  "spinClose [] = None"
| "spinClose (closed # rest) = (if closed then Some 0 else map_option Suc (spinClose rest))"

text \<open>
  The tail of \<^verbatim>\<open>action\<close> after the switch: \<^verbatim>\<open>EventBus <- stateEvent\<close>, then
  \<^verbatim>\<open>r.Publisher.OnEvent(stateEvent)\<close> when a publisher is set.
\<close>

definition notify :: "Event \<Rightarrow> Stream \<Rightarrow> Stream" where
  "notify stateEvent r =
     emit (EventBus stateEvent #
           (case Publisher r of None \<Rightarrow> [] | Some _ \<Rightarrow> [PublisherOnEvent (PEvent stateEvent)])) r"

text \<open>The case \<^verbatim>\<open>STATE_WAITPUBLISH\<close> of the switch in \<^verbatim>\<open>action\<close>.\<close>

definition enterWaitPublish :: "StateEvent \<Rightarrow> Stream \<Rightarrow> Stream" where
  "enterWaitPublish event r =
    (let stateEvent = SEwaitPublish event (Publisher r);
         waitTime0 = (case Publisher r of None \<Rightarrow> 0 | Some p \<Rightarrow> WaitCloseTimeout p);
         r1 = (case Publisher r of None \<Rightarrow> r | Some p \<Rightarrow> r\<lparr>Tracks := setTracksOffline (Tracks r)\<rparr>);
         r2 = emit [OnPublisherLost event] r1;
         (waitTime, r3) =
           (case Pick (Subscribers r2) of
              Some suber \<Rightarrow>
                (if waitTime0 = 0 then WaitTimeout suber else waitTime0,
                 emit [Broadcast (PEvent stateEvent)] r2)
            | None \<Rightarrow> (if waitTime0 = 0 then Millisecond * 10 else waitTime0, r2))
     in emit [LogDebug ''wait publisher''] (r3\<lparr>timeout := Armed waitTime\<rparr>))"

text \<open>The case \<^verbatim>\<open>STATE_WAITCLOSE\<close>.\<close>

definition enterWaitClose :: "Stream \<Rightarrow> Stream" where
  "enterWaitClose r =
    (if IdleTimeout r > 0 then r\<lparr>timeout := Armed (IdleTimeout r)\<rparr>
     else r\<lparr>timeout := Armed (DelayCloseTimeout r)\<rparr>)"

text \<open>The case \<^verbatim>\<open>STATE_CLOSED\<close>, after the spin loop has closed the queue.\<close>

definition enterClosed :: "StateEvent \<Rightarrow> Stream \<Rightarrow> Stream" where
  "enterClosed event r =
     (emit [Broadcast (PEvent (SEclose event)), StreamsDelete (Path r)]
        (r\<lparr>actionChan := (actionChan r)\<lparr>chanClosed := True\<rparr>\<rparr>))\<lparr>timeout := Stopped\<rparr>"

lemma StreamFSM_LASTLEAVE_not_publishing:
  "StreamFSM s ACTION_LASTLEAVE \<noteq> Some STATE_PUBLISHING"
  by (cases s) simp_all

text \<open>
  \<^verbatim>\<open>func (r *Stream) action(action StreamAction) (ok bool)\<close>. The result is \<open>None\<close>
  when the call does not return (the spin loop, see \<open>spinClose\<close>), else the returned
  \<^verbatim>\<open>ok\<close> and the stream after the call.
\<close>

function action :: "bool list \<Rightarrow> StreamAction \<Rightarrow> Stream \<Rightarrow> (bool \<times> Stream) option" where
  "action closes a r =
    (let event = \<lparr>Action = a, From = State r\<rparr> in
     case Next event of
       None \<Rightarrow> Some (False, emit [LogDebug ''wrong action''] r)
     | Some next \<Rightarrow>
        (let r1 = emit [LogTransition (From event) next a]
                    (r\<lparr>State := next, SEHistory := SEHistory r @ [event]\<rparr>)
         in case next of
              STATE_WAITPUBLISH \<Rightarrow>
                Some (True, notify (SEwaitPublish event (Publisher r1)) (enterWaitPublish event r1))
            | STATE_PUBLISHING \<Rightarrow>
                (let stateEvent = (if length (SEHistory r1) > 1 then SErepublish event
                                   else SEpublish event);
                     r2 = emit [Broadcast (PEvent stateEvent)] r1
                 in if IdleTimeout r2 > 0 \<and> Len (Subscribers r2) = 0
                    then action closes ACTION_LASTLEAVE r2
                    else Some (True, notify stateEvent (r2\<lparr>timeout := Armed (PublishTimeout r2)\<rparr>)))
            | STATE_WAITCLOSE \<Rightarrow>
                Some (True, notify (SEwaitClose event) (enterWaitClose r1))
            | STATE_CLOSED \<Rightarrow>
                (case spinClose closes of
                   None \<Rightarrow> None
                 | Some sleeps \<Rightarrow> Some (True, notify (SEclose event) (enterClosed event r1)))))"
  by pat_completeness auto
termination
  by (relation "measure (\<lambda>(closes, a, r). if a = ACTION_LASTLEAVE then 0 else 1)")
     (auto simp: Next_def StreamFSM_LASTLEAVE_not_publishing)

declare action.simps [simp del]

text \<open>
  \<^verbatim>\<open>strings.Split(s, sep)\<close> for a separator of one character, and
  \<^verbatim>\<open>strings.Join(xs, sep)\<close>.
\<close>

fun Split :: "string \<Rightarrow> char \<Rightarrow> string list" where
  "Split [] sep = [[]]"
| "Split (c # cs) sep =
     (if c = sep then [] # Split cs sep
      else (case Split cs sep of [] \<Rightarrow> [[c]] | x # xs \<Rightarrow> (c # x) # xs))"

fun Join :: "string list \<Rightarrow> char \<Rightarrow> string" where
  "Join [] sep = []"
| "Join [x] sep = x"
| "Join (x # y # ys) sep = x @ sep # Join (y # ys) sep"

text \<open>
  The Stream that \<^verbatim>\<open>findOrCreateStream\<close> builds for a path that is not registered:
  the struct literal (every field it does not name has Go's zero value, so \<^verbatim>\<open>State\<close>
  is the first constant, \<^verbatim>\<open>STATE_WAITPUBLISH\<close>), then the \<^verbatim>\<open>Init\<close> calls and the
  log line.
\<close>

definition newStream :: "string \<Rightarrow> Duration \<Rightarrow> Stream" where
  "newStream streamPath waitTimeout =
     (let p = Split streamPath (CHR ''/'') in
      \<lparr>timeout = Armed waitTimeout,
       actionChan = \<lparr>chanItems = [], chanClosed = False\<rparr>,
       PublishTimeout = 0, DelayCloseTimeout = 0, IdleTimeout = 0,
       Path = streamPath,
       Publisher = None,
       State = STATE_WAITPUBLISH,
       SEHistory = [],
       Subscribers = \<lparr>public = [], internal = [], waitAborted = False\<rparr>,
       Tracks = \<lparr>Map = [], MainVideo = None\<rparr>,
       AppName = hd p,
       StreamName = Join (tl p) (CHR ''/''),
       trace = [LogInfo ''created'']\<rparr>)"

text \<open>
  \<^verbatim>\<open>findOrCreateStream\<close> over the registry \<^verbatim>\<open>Streams.Map\<close>: the registry after the
  call, the stream (\<open>None\<close> for Go's nil) and \<^verbatim>\<open>created\<close>.
\<close>

definition findOrCreateStream ::
  "(string \<times> Stream) list \<Rightarrow> string \<Rightarrow> Duration \<Rightarrow> (string \<times> Stream) list \<times> Stream option \<times> bool" where
  "findOrCreateStream Streams streamPath waitTimeout =
     (if length (Split streamPath (CHR ''/'')) < 2 then (Streams, None, False)
      else (case map_of Streams streamPath of
              Some s \<Rightarrow> (Streams, Some (emit [LogDebug ''Stream Found''] s), False)
            | None \<Rightarrow>
                (let s = newStream streamPath waitTimeout
                 in ((streamPath, s) # Streams, Some s, True))))"

text \<open>
  A list of state events is a path of the transition table from \<open>s\<close> to \<open>t\<close>: each
  event starts where the one before it ended, and each step is an entry of
  \<open>StreamFSM\<close>.
\<close>

fun follows :: "StreamState \<Rightarrow> StateEvent list \<Rightarrow> StreamState \<Rightarrow> bool" where
  "follows s [] t = (s = t)"
| "follows s (e # es) t =
     (From e = s \<and> (case StreamFSM s (Action e) of None \<Rightarrow> False | Some n \<Rightarrow> follows n es t))"

subsection \<open>The tracks of a stream\<close>

text \<open>\<^verbatim>\<open>v.Narrow()\<close> on an audio track, counted.\<close>

definition Narrow :: "Track \<Rightarrow> Track" where
  "Narrow t = t\<lparr>narrowed := Suc (narrowed t)\<rparr>"

text \<open>
  \<^verbatim>\<open>Tracks.SetIDR(video)\<close>: when \<^verbatim>\<open>video\<close> is the main video, every audio track of
  the map is narrowed.
\<close>

definition SetIDR :: "nat \<Rightarrow> Tracks \<Rightarrow> Tracks" where
  "SetIDR v ts =
     (if Some v = MainVideo ts
      then ts\<lparr>Map := map (\<lambda>(n, t). (n, if Kind t = KindAudio then Narrow t else t)) (Map ts)\<rparr>
      else ts)"

text \<open>
  Modelled from the spec: \<^verbatim>\<open>util.Map\<close> is not among the sources. Section 4.5: "Insert
  track by name; on duplicate name, reject" and "delete by name": \<^verbatim>\<open>Map.Add\<close> returns
  false and changes nothing when the name is taken, \<^verbatim>\<open>Map.Delete\<close> returns the value
  removed and whether there was one.
\<close>

definition MapAdd :: "string \<Rightarrow> Track \<Rightarrow> (string \<times> Track) list \<Rightarrow> bool \<times> (string \<times> Track) list" where
  "MapAdd name t m = (case map_of m name of Some _ \<Rightarrow> (False, m) | None \<Rightarrow> (True, m @ [(name, t)]))"

definition MapDelete :: "string \<Rightarrow> (string \<times> Track) list \<Rightarrow> Track option \<times> (string \<times> Track) list" where
  "MapDelete name m = (map_of m name, filter (\<lambda>(n, t). n \<noteq> name) m)"

text \<open>
  \<^verbatim>\<open>Tracks.Add(name, t)\<close>: the type switch runs before \<^verbatim>\<open>Map.Add\<close>, so the main video
  is set and audio tracks are narrowed also when the name turns out to be taken. The
  result is the answer of \<^verbatim>\<open>Map.Add\<close>, the track as stored (an audio track may have
  been narrowed) and the tracks after the call.
\<close>

definition TracksAdd :: "string \<Rightarrow> Track \<Rightarrow> Tracks \<Rightarrow> bool \<times> Track \<times> Tracks" where
  "TracksAdd name t tracks =
     (let (t1, tracks1) =
            (case Kind t of
               KindVideo \<Rightarrow>
                 (if MainVideo tracks = None
                  then (t, SetIDR (trackId t) (tracks\<lparr>MainVideo := Some (trackId t)\<rparr>))
                  else (t, tracks))
             | KindAudio \<Rightarrow>
                 (if MainVideo tracks \<noteq> None then (Narrow t, tracks) else (t, tracks))
             | KindData \<Rightarrow> (t, tracks));
          (ok, m) = MapAdd name t1 (Map tracks1)
      in (ok, t1, tracks1\<lparr>Map := m\<rparr>))"

subsection \<open>The subscriber set\<close>

text \<open>
  Modelled from the spec: subscribers.go and the \<^verbatim>\<open>waitTracks\<close> methods are not among
  the sources. Section 3: "A wait is satisfied when a matching-named Track becomes
  available or the wait is explicitly aborted." Section 4.5: waits are "keyed by
  track-name lists from args, else from config lists, else any if flag on".
  \<^verbatim>\<open>Wait(names...)\<close> starts a wait, \<^verbatim>\<open>StopWait()\<close> ends it, \<^verbatim>\<open>Accept(t)\<close> ends the
  wait of the track's kind when the track's name is waited for.
\<close>

definition Wait :: "string list \<Rightarrow> string list option" where
  "Wait names = Some names"

definition StopWait :: "string list option" where
  "StopWait = None"

definition accepts :: "string list option \<Rightarrow> string \<Rightarrow> bool" where
  "accepts w name = (case w of None \<Rightarrow> False | Some names \<Rightarrow> names = [] \<or> name \<in> set names)"

definition Accept :: "Track \<Rightarrow> waitTracks \<Rightarrow> waitTracks" where
  "Accept t w =
     (case Kind t of
        KindAudio \<Rightarrow> (if accepts (audio w) (Name t) then w\<lparr>audio := StopWait\<rparr> else w)
      | KindVideo \<Rightarrow> (if accepts (video w) (Name t) then w\<lparr>video := StopWait\<rparr> else w)
      | KindData \<Rightarrow> (if accepts (data w) (Name t) then w\<lparr>data := StopWait\<rparr> else w))"

definition waiting :: "waitTracks \<Rightarrow> bool" where
  "waiting w = (audio w \<noteq> None \<or> video w \<noteq> None \<or> data w \<noteq> None)"

text \<open>
  Modelled from the spec, section 4.7: "Add(sub, waits): insert; when all three waits
  (audio/video/data) are satisfied or aborted, resolve the subscribe promise";
  "Broadcast(event): deliver to every subscriber"; "OnPublisherLost(ev), OnTrack(t):
  fan-out helpers"; "AbortWait(): mark a shared flag so all new and current waits stop
  blocking; re-resolves any pending subscribe promises"; "Dispose(): close all
  subscribers". Each operation gives the set after the call and the promises it
  resolves. \<^verbatim>\<open>Add\<close> puts the subscriber into the public set.
\<close>

definition SubscribersAdd :: "ISubscriber \<Rightarrow> waitTracks \<Rightarrow> Subscribers \<Rightarrow> Subscribers \<times> Effect list" where
  "SubscribersAdd suber w ss =
     (ss\<lparr>public := public ss @ [(suber, w)]\<rparr>,
      if waiting w then [] else [Resolve (waitPromise w)])"

definition SubscribersDelete :: "ISubscriber \<Rightarrow> Subscribers \<Rightarrow> Subscribers" where
  "SubscribersDelete suber ss =
     ss\<lparr>public := filter (\<lambda>(x, w). subId x \<noteq> subId suber) (public ss),
        internal := filter (\<lambda>(x, w). subId x \<noteq> subId suber) (internal ss)\<rparr>"

definition acceptAll :: "Track \<Rightarrow> (ISubscriber \<times> waitTracks) list \<Rightarrow> (ISubscriber \<times> waitTracks) list" where
  "acceptAll t subs = map (\<lambda>(x, w). (x, Accept t w)) subs"

definition newlyDone :: "(ISubscriber \<times> waitTracks) list \<Rightarrow> (waitTracks \<Rightarrow> waitTracks) \<Rightarrow> Effect list" where
  "newlyDone subs f =
     map (\<lambda>(x, w). Resolve (waitPromise w)) (filter (\<lambda>(x, w). waiting w \<and> \<not> waiting (f w)) subs)"

definition SubscribersOnTrack :: "Track \<Rightarrow> Subscribers \<Rightarrow> Subscribers \<times> Effect list" where
  "SubscribersOnTrack t ss =
     (ss\<lparr>public := acceptAll t (public ss), internal := acceptAll t (internal ss)\<rparr>,
      newlyDone (public ss @ internal ss) (Accept t))"

definition abort :: "waitTracks \<Rightarrow> waitTracks" where
  "abort w = w\<lparr>audio := StopWait, video := StopWait, data := StopWait\<rparr>"

definition AbortWait :: "Subscribers \<Rightarrow> Subscribers \<times> Effect list" where
  "AbortWait ss =
     (ss\<lparr>public := map (\<lambda>(x, w). (x, abort w)) (public ss),
         internal := map (\<lambda>(x, w). (x, abort w)) (internal ss),
         waitAborted := True\<rparr>,
      newlyDone (public ss @ internal ss) abort)"

subsection \<open>Receive and the serial loop\<close>

text \<open>\<^verbatim>\<open>IsClosed\<close> is defined on a nil receiver too.\<close>

definition IsClosed :: "Stream option \<Rightarrow> bool" where
  "IsClosed r = (case r of None \<Rightarrow> True | Some s \<Rightarrow> State s = STATE_CLOSED)"

text \<open>\<^verbatim>\<open>func (s *Stream) Receive(event any) bool\<close>.\<close>

definition Receive :: "Stream option \<Rightarrow> Item \<Rightarrow> bool \<times> Stream option" where
  "Receive s event =
     (if IsClosed s then (False, s)
      else (case s of
              None \<Rightarrow> (False, s)
            | Some r \<Rightarrow> (let (ok, ch) = Send (actionChan r) event
                         in (ok, Some (r\<lparr>actionChan := ch\<rparr>)))))"

text \<open>
  How a call ends when it does not return: it never comes back (the spin loop of
  \<open>action\<close>) or it panics (a method call on a nil publisher).
\<close>

datatype Abort = Hang | Panic

text \<open>A call of \<open>action\<close> whose \<^verbatim>\<open>ok\<close> is dropped by the caller.\<close>

definition actionThen :: "bool list \<Rightarrow> StreamAction \<Rightarrow> Stream \<Rightarrow> Abort + Stream" where
  "actionThen closes a s = (case action closes a s of None \<Rightarrow> Inl Hang | Some (ok, s') \<Rightarrow> Inr s')"

text \<open>\<^verbatim>\<open>func (s *Stream) onSuberClose(sub ISubscriber)\<close>.\<close>

definition onSuberClose :: "bool list \<Rightarrow> ISubscriber \<Rightarrow> Stream \<Rightarrow> Abort + Stream" where
  "onSuberClose closes sub s =
     (let s1 = s\<lparr>Subscribers := SubscribersDelete sub (Subscribers s)\<rparr>;
          s2 = (case Publisher s1 of
                  None \<Rightarrow> s1
                | Some p \<Rightarrow> emit [PublisherOnEvent (PSubscriber (subId sub))] s1)
      in if (DelayCloseTimeout s2 > 0 \<or> IdleTimeout s2 > 0) \<and> Len (Subscribers s2) = 0
         then actionThen closes ACTION_LASTLEAVE s2
         else Inr s2)"

text \<open>\<^verbatim>\<open>io.Args.Get(name)\<close>: the value of the key, the empty string when it is absent.\<close>

definition ArgsGet :: "(string \<times> string) list \<Rightarrow> string \<Rightarrow> string" where
  "ArgsGet args name = (case map_of args name of None \<Rightarrow> [] | Some v \<Rightarrow> v)"

text \<open>
  The waits that the subscribe case of \<^verbatim>\<open>run\<close> builds from the subscriber's arguments
  and configuration, before it looks at the publisher.
\<close>

definition requestedWaits :: "nat \<Rightarrow> ISubscriber \<Rightarrow> waitTracks" where
  "requestedWaits promise suber =
     (let ats = ArgsGet (Args suber) (SubAudioArgName suber);
          vts = ArgsGet (Args suber) (SubVideoArgName suber);
          dts = ArgsGet (Args suber) (SubDataArgName suber)
      in \<lparr>waitPromise = promise,
          audio = (if ats \<noteq> [] then Wait (Split ats (CHR '',''))
                   else if length (SubAudioTracks suber) > 0 then Wait (SubAudioTracks suber)
                   else if SubAudio suber then Wait []
                   else None),
          video = (if vts \<noteq> [] then Wait (Split vts (CHR '',''))
                   else if length (SubVideoTracks suber) > 0 then Wait (SubVideoTracks suber)
                   else if SubVideo suber then Wait []
                   else None),
          data = (if dts \<noteq> [] then Wait (Split dts (CHR '','')) else None)\<rparr>)"

text \<open>The case \<^verbatim>\<open>*util.Promise[IPublisher]\<close> of the type switch in \<^verbatim>\<open>run\<close>.\<close>

definition onPublish :: "bool list \<Rightarrow> nat \<Rightarrow> IPublisher option \<Rightarrow> Stream \<Rightarrow> Abort + Stream" where
  "onPublish closes v val s =
     (let s1 = (if IsClosed (Some s) then emit [Reject v ErrStreamIsClosed] s else s);
          republish = (map_option pubId (Publisher s1) = map_option pubId val);
          s2 = (if \<not> republish then s1\<lparr>Publisher := val\<rparr> else s1)
      in case action closes ACTION_PUBLISH s2 of
           None \<Rightarrow> Inl Hang
         | Some (ok, s3) \<Rightarrow>
             (if ok \<or> republish then Inr (emit [Resolve v] s3)
              else Inr (emit [Reject v ErrBadStreamName] s3)))"

text \<open>The case \<^verbatim>\<open>*util.Promise[ISubscriber]\<close>.\<close>

definition onSubscribe :: "bool list \<Rightarrow> nat \<Rightarrow> ISubscriber \<Rightarrow> Stream \<Rightarrow> Abort + Stream" where
  "onSubscribe closes v suber s =
     (let s1 = (if IsClosed (Some s) then emit [Reject v ErrStreamIsClosed] s else s);
          waits = requestedWaits v suber;
          (waits1, s2) =
            (case Publisher s1 of
               None \<Rightarrow> (waits, s1)
             | Some p \<Rightarrow>
                 (let w1 = fold (\<lambda>(name, t) w. Accept t w) (Map (Tracks s1)) waits;
                      w2 = (if \<not> PubAudio p \<or> waitAborted (Subscribers s1)
                            then w1\<lparr>audio := StopWait\<rparr> else w1);
                      w3 = (if \<not> PubVideo p \<or> waitAborted (Subscribers s1)
                            then w2\<lparr>video := StopWait\<rparr> else w2)
                  in (w3, emit [PublisherOnEvent (PSubscribe v)] s1)));
          (subs, resolved) = SubscribersAdd suber waits1 (Subscribers s2);
          s3 = emit resolved (s2\<lparr>Subscribers := subs\<rparr>)
      in if Len (Subscribers s3) = 1 \<and> State s3 = STATE_WAITCLOSE
         then actionThen closes ACTION_FIRSTENTER s3
         else Inr s3)"

text \<open>The case \<^verbatim>\<open>TrackRemoved\<close>.\<close>

definition onTrackRemoved :: "bool list \<Rightarrow> Track \<Rightarrow> Stream \<Rightarrow> Abort + Stream" where
  "onTrackRemoved closes v s =
     (let name = Name v in
      case MapDelete name (Map (Tracks s)) of
        (None, m) \<Rightarrow> Inr s
      | (Some t, m) \<Rightarrow>
          (let s1 = emit [LogInfo ''track -1'', Broadcast (PTrack t)]
                      (s\<lparr>Tracks := (Tracks s)\<lparr>Map := m\<rparr>\<rparr>)
           in case (if length (Map (Tracks s1)) = 0
                    then actionThen closes ACTION_PUBLISHLOST s1 else Inr s1) of
                Inl e \<Rightarrow> Inl e
              | Inr s2 \<Rightarrow>
                  Inr (if Kind t = KindData then emit [DisposeTrack (Name t)] s2 else s2)))"

text \<open>
  The case \<^verbatim>\<open>*util.Promise[Track]\<close>. \<^verbatim>\<open>s.GetPublisherConfig()\<close> is a method call on
  \<^verbatim>\<open>s.Publisher\<close> and panics when there is none; Go's \<^verbatim>\<open>&&\<close> makes the call only
  for a track of the kind tested.
\<close>

definition onTrack :: "bool list \<Rightarrow> nat \<Rightarrow> Track \<Rightarrow> Stream \<Rightarrow> Abort + Stream" where
  "onTrack closes v val s =
     (case (if State s = STATE_WAITPUBLISH then actionThen closes ACTION_PUBLISH s else Inr s) of
        Inl e \<Rightarrow> Inl e
      | Inr s1 \<Rightarrow>
          (let name = Name val;
               (ok, stored, tracks) = TracksAdd name val (Tracks s1);
               s2 = s1\<lparr>Tracks := tracks\<rparr>
           in if ok then
                (let (subs, resolved) = SubscribersOnTrack stored (Subscribers s2);
                     s3 = emit (Resolve v # resolved) (s2\<lparr>Subscribers := subs\<rparr>)
                 in if Kind stored \<noteq> KindData \<and> Publisher s3 = None then Inl Panic
                    else
                      (let quiet = (case Publisher s3 of
                                      None \<Rightarrow> False
                                    | Some p \<Rightarrow> (Kind stored = KindVideo \<and> \<not> PubAudio p)
                                              \<or> (Kind stored = KindAudio \<and> \<not> PubVideo p));
                           (subs1, resolved1) =
                             (if quiet then AbortWait (Subscribers s3) else (Subscribers s3, []));
                           s4 = emit resolved1 (s3\<lparr>Subscribers := subs1\<rparr>)
                       in Inr (s4\<lparr>timeout := Armed (Second * 5)\<rparr>)))
              else Inr (emit [Reject v ErrBadTrackName] s2)))"

text \<open>
  One item taken from the action queue: the type switch of \<^verbatim>\<open>run\<close>. The second
  component is the loop's local set \<^verbatim>\<open>pulseSuber\<close>, as the list of the subscribers'
  identities.
\<close>

fun dispatch :: "bool list \<Rightarrow> Item \<Rightarrow> Stream \<times> nat list \<Rightarrow> Abort + (Stream \<times> nat list)" where
  "dispatch closes (SubPulse v) (s, pulseSuber) = Inr (s, List.insert (subId v) pulseSuber)"
| "dispatch closes (PromisePublisher v val) (s, pulseSuber) =
     map_sum id (\<lambda>s'. (s', pulseSuber)) (onPublish closes v val s)"
| "dispatch closes (PromiseSubscriber v suber) (s, pulseSuber) =
     map_sum id (\<lambda>s'. (s', pulseSuber)) (onSubscribe closes v suber s)"
| "dispatch closes (Unsubscribe v) (s, pulseSuber) =
     map_sum id (\<lambda>s'. (s', removeAll (subId v) pulseSuber)) (onSuberClose closes v s)"
| "dispatch closes (TrackRemoved v) (s, pulseSuber) =
     map_sum id (\<lambda>s'. (s', pulseSuber)) (onTrackRemoved closes v s)"
| "dispatch closes (PromiseTrack v val) (s, pulseSuber) =
     map_sum id (\<lambda>s'. (s', pulseSuber)) (onTrack closes v val s)"
| "dispatch closes NoMoreTrack (s, pulseSuber) =
     (let (subs, resolved) = AbortWait (Subscribers s)
      in Inr (emit resolved (s\<lparr>Subscribers := subs\<rparr>), pulseSuber))"
| "dispatch closes (BareAction v) (s, pulseSuber) =
     map_sum id (\<lambda>s'. (s', pulseSuber)) (actionThen closes v s)"
| "dispatch closes UnknownItem (s, pulseSuber) = Inr (emit [LogError ''unknown action''] s, pulseSuber)"

text \<open>
  The branch of the loop's \<^verbatim>\<open>select\<close> that receives from the action queue, when it
  is taken: a queue that is closed and empty ends the loop (the subscribers and every
  data track are disposed), the second component says so; an item is dispatched. On an
  open and empty queue the branch is not taken: \<open>None\<close>.
\<close>

definition disposeAll :: "Stream \<Rightarrow> Stream" where
  "disposeAll s =
     emit (DisposeSubscribers #
           map (\<lambda>(n, t). DisposeTrack (Name t)) (filter (\<lambda>(n, t). Kind t = KindData) (Map (Tracks s)))) s"

definition runReceive ::
  "bool list \<Rightarrow> Stream \<times> nat list \<Rightarrow> (Abort + ((Stream \<times> nat list) \<times> bool)) option" where
  "runReceive closes st =
     (case st of (s, pulseSuber) \<Rightarrow>
        (case chanItems (actionChan s) of
           [] \<Rightarrow> (if chanClosed (actionChan s) then Some (Inr ((disposeAll s, pulseSuber), True)) else None)
         | item # rest \<Rightarrow>
             Some (map_sum id (\<lambda>st'. (st', False))
                    (dispatch closes item (s\<lparr>actionChan := (actionChan s)\<lparr>chanItems := rest\<rparr>\<rparr>, pulseSuber)))))"

text \<open>
  The entries of the trace that belong to a state transition: the transition's log
  line, the loss notice, a state event on the bus, and a state event broadcast to the
  subscribers or handed to the publisher.
\<close>

fun stateEventEffect :: "Effect \<Rightarrow> bool" where
  "stateEventEffect (LogTransition from to a) = True"
| "stateEventEffect (OnPublisherLost ev) = True"
| "stateEventEffect (EventBus ev) = True"
| "stateEventEffect (Broadcast (PEvent ev)) = True"
| "stateEventEffect (PublisherOnEvent (PEvent ev)) = True"
| "stateEventEffect e = False"

text \<open>The calls of \<^verbatim>\<open>Resolve\<close> and \<^verbatim>\<open>Reject\<close> on the promise \<open>v\<close>, in order.\<close>

definition promiseCalls :: "nat \<Rightarrow> Effect list \<Rightarrow> Effect list" where
  "promiseCalls v es = filter (\<lambda>e. e = Resolve v \<or> (\<exists>err \<in> {ErrStreamIsClosed, ErrBadStreamName, ErrBadTrackName}. e = Reject v err)) es"

text \<open>
  A step from \<open>s\<close> to \<open>s'\<close> that is no transition: state and history are the same,
  and what the step adds to the trace has no entry of a state transition.
\<close>

definition quietStep :: "Stream \<Rightarrow> Stream \<Rightarrow> bool" where
  "quietStep s s' \<longleftrightarrow> State s' = State s \<and> SEHistory s' = SEHistory s
     \<and> (\<exists>es. trace s' = trace s @ es \<and> (\<forall>e \<in> set es. \<not> stateEventEffect e))"

section \<open>The H.265 track (track/h265.go)\<close>

subsection \<open>Bytes, NAL unit types, byte lists\<close>

type_synonym byte = "8 word"

text \<open>
  Modelled from the spec: the codec package is not among the sources. Section 4.1:
  "ParseH265NALUType(b) returns (b >> 1) & 0x3F"; the method \<^verbatim>\<open>H265NALUType.Parse\<close>
  that \<^verbatim>\<open>CompleteRTP\<close> calls reads the type from a header byte in the same way
  (section 6: "type = (b0>>1) & 0x3F").
\<close>

definition ParseH265NALUType :: "byte \<Rightarrow> byte" where
  "ParseH265NALUType b = drop_bit 1 b AND 0x3F"

text \<open>
  Modelled from the spec: the NAL unit type constants of the codec package. The
  specification gives VPS = 32, SPS = 33, PPS = 34 (section 4.3), IDR = 19 (section 8),
  AP = 48 and FU = 49 (section 4.1); the other key-slice types and SEI are numbered as in
  the HEVC standard, whose order the constants follow.
\<close>

definition NAL_UNIT_CODED_SLICE_BLA :: byte where "NAL_UNIT_CODED_SLICE_BLA = 16"
definition NAL_UNIT_CODED_SLICE_BLANT :: byte where "NAL_UNIT_CODED_SLICE_BLANT = 17"
definition NAL_UNIT_CODED_SLICE_BLA_N_LP :: byte where "NAL_UNIT_CODED_SLICE_BLA_N_LP = 18"
definition NAL_UNIT_CODED_SLICE_IDR :: byte where "NAL_UNIT_CODED_SLICE_IDR = 19"
definition NAL_UNIT_CODED_SLICE_IDR_N_LP :: byte where "NAL_UNIT_CODED_SLICE_IDR_N_LP = 20"
definition NAL_UNIT_CODED_SLICE_CRA :: byte where "NAL_UNIT_CODED_SLICE_CRA = 21"
definition NAL_UNIT_VPS :: byte where "NAL_UNIT_VPS = 32"
definition NAL_UNIT_SPS :: byte where "NAL_UNIT_SPS = 33"
definition NAL_UNIT_PPS :: byte where "NAL_UNIT_PPS = 34"
definition NAL_UNIT_SEI :: byte where "NAL_UNIT_SEI = 39"
definition NAL_UNIT_RTP_AP :: byte where "NAL_UNIT_RTP_AP = 48"
definition NAL_UNIT_RTP_FU :: byte where "NAL_UNIT_RTP_FU = 49"

text \<open>The six types of the key-slice case of \<^verbatim>\<open>WriteSliceBytes\<close>, in its order.\<close>

definition keySliceTypes :: "byte list" where
  "keySliceTypes =
     [NAL_UNIT_CODED_SLICE_BLA, NAL_UNIT_CODED_SLICE_BLANT, NAL_UNIT_CODED_SLICE_BLA_N_LP,
      NAL_UNIT_CODED_SLICE_IDR, NAL_UNIT_CODED_SLICE_IDR_N_LP, NAL_UNIT_CODED_SLICE_CRA]"

text \<open>
  Modelled from the spec: \<^verbatim>\<open>util.BLL\<close> is not among the sources. Section 4.4: "a linked
  byte list frame with total length"; the specification counts the list head \<^verbatim>\<open>frame\<close>
  as the first segment and \<^verbatim>\<open>frame.Next\<close> as the second. \<open>ownValue\<close> is the buffer of
  the head itself (empty when the head only anchors the list), \<open>items\<close> are the buffers
  of \<^verbatim>\<open>frame.Next\<close>, \<^verbatim>\<open>frame.Next.Next\<close>, ... in order, so \<^verbatim>\<open>frame.Next.Value\<close> is
  the first of \<open>items\<close> and a nil \<^verbatim>\<open>frame.Next\<close> is \<open>items = []\<close>. \<^verbatim>\<open>ByteLength\<close> is
  a field that the code keeps by hand.
\<close>

record BLL =
  ownValue :: "byte list"
  items :: "byte list list"
  ByteLength :: int

definition ToBytes :: "BLL \<Rightarrow> byte list" where
  "ToBytes frame = concat (ownValue frame # items frame)"

text \<open>\<^verbatim>\<open>frame.GetByte(i)\<close>: byte \<open>i\<close> of the whole list, zero when there is none.\<close>

definition GetByte :: "BLL \<Rightarrow> nat \<Rightarrow> byte" where
  "GetByte frame i = (if i < length (ToBytes frame) then ToBytes frame ! i else 0)"

text \<open>A list of one buffer, as \<^verbatim>\<open>AppendAuBytes(slice)\<close> makes it for a NAL unit.\<close>

definition singleBLL :: "byte list \<Rightarrow> BLL" where
  "singleBLL nalu = \<lparr>ownValue = [], items = [nalu], ByteLength = int (length nalu)\<rparr>"

text \<open>\<^verbatim>\<open>Push\<close> of one more buffer at the end of a list.\<close>

definition PushBuffer :: "byte list \<Rightarrow> BLL \<Rightarrow> BLL" where
  "PushBuffer buf l = l\<lparr>items := items l @ [buf], ByteLength := ByteLength l + int (length buf)\<rparr>"

subsection \<open>The track\<close>

record SPSInfo =
  Width :: nat
  Height :: nat

record AVFrame =
  IFrame :: bool
  AUList :: "BLL list"

datatype GoError = ErrShortWrite | ErrOther nat

text \<open>
  What the track does to its collaborators, in program order: log lines,
  \<^verbatim>\<open>vt.Stream.Close()\<close>, the frame handed on to \<^verbatim>\<open>Video.WriteAVCC\<close>,
  \<^verbatim>\<open>frame.Recycle()\<close>, and the steps of the marker branch of \<^verbatim>\<open>WriteRTPFrame\<close>.
\<close>

datatype TrackEffect =
  TrackDebug string
| TrackWarn string
| TrackError string
| StreamClose
| ForwardAVCC "32 word" BLL
| Recycle
| GenerateTimestamp "32 word"
| InsertDCRtp

text \<open>
  The fields of \<^verbatim>\<open>H265\<close> and of the \<^verbatim>\<open>Video\<close> it embeds that h265.go reads or
  writes. \<^verbatim>\<open>Value\<close> is the frame being assembled; \<open>flushed\<close> are the frames that
  \<^verbatim>\<open>Flush\<close> has handed on, oldest first; \<open>effects\<close> is the track's trace.
\<close>

record H265 =
  VPS :: "byte list option"
  SPS :: "byte list option"
  PPS :: "byte list option"
  ParamaterSets :: "byte list list"
  SPSInfo :: SPSInfo
  SequenceHead :: "byte list"
  nalulenSize :: int
  Value :: AVFrame
  dcChanged :: bool
  flushed :: "AVFrame list"
  effects :: "TrackEffect list"

text \<open>
  The functions of the repository that h265.go calls and that are not among the
  sources, taken as parameters: the SPS parser, the builder and the parser of the
  sequence header (the parser returns its three slices and the error together, as the Go
  function does), \<^verbatim>\<open>Video.WriteAVCC\<close> (error and track after the call), the three
  packet types of the extended header that \<^verbatim>\<open>WriteAVCC\<close> tells apart, and the
  constant \<^verbatim>\<open>RTPMTU\<close>.
\<close>

record Env =
  ParseHevcSPS :: "byte list \<Rightarrow> SPSInfo"
  BuildH265SeqHeaderFromVpsSpsPps :: "byte list \<Rightarrow> byte list \<Rightarrow> byte list \<Rightarrow> GoError + byte list"
  ParseVpsSpsPpsFromSeqHeaderWithoutMalloc ::
    "byte list \<Rightarrow> byte list option \<times> byte list option \<times> byte list option \<times> GoError option"
  VideoWriteAVCC :: "32 word \<Rightarrow> BLL \<Rightarrow> H265 \<Rightarrow> GoError option \<times> H265"
  PacketTypeSequenceStart :: byte
  PacketTypeCodedFrames :: byte
  PacketTypeCodedFramesX :: byte
  RTPMTU :: nat

definition report :: "TrackEffect list \<Rightarrow> H265 \<Rightarrow> H265" where
  "report es vt = vt\<lparr>effects := effects vt @ es\<rparr>"

text \<open>
  \<^verbatim>\<open>NewH265\<close>: a fresh track. The parameter sets are a slice of three nil entries and
  the length size is 4.
\<close>

definition NewH265 :: H265 where
  "NewH265 =
     \<lparr>VPS = None, SPS = None, PPS = None,
      ParamaterSets = [[], [], []],
      SPSInfo = \<lparr>Width = 0, Height = 0\<rparr>,
      SequenceHead = [],
      nalulenSize = 4,
      Value = \<lparr>IFrame = False, AUList = []\<rparr>,
      dcChanged = False,
      flushed = [],
      effects = []\<rparr>"

text \<open>
  Modelled from the spec: \<^verbatim>\<open>AppendAuBytes\<close>, \<^verbatim>\<open>WriteSequenceHead\<close> and \<^verbatim>\<open>Flush\<close> are
  methods of the embedded track types, not among the sources. Section 4.2: "Incoming
  NALU bytes are appended to the current in-progress AVFrame's AUList", as a new NAL
  unit; Flush "advances the ring by one slot", handing on the frame and starting an
  empty one. Section 3: the track holds "SequenceHead bytes", which
  \<^verbatim>\<open>WriteSequenceHead\<close> sets.
\<close>

definition AppendAuBytes :: "byte list \<Rightarrow> H265 \<Rightarrow> H265" where
  "AppendAuBytes nalu vt = vt\<lparr>Value := (Value vt)\<lparr>AUList := AUList (Value vt) @ [singleBLL nalu]\<rparr>\<rparr>"

definition WriteSequenceHead :: "byte list \<Rightarrow> H265 \<Rightarrow> H265" where
  "WriteSequenceHead head vt = vt\<lparr>SequenceHead := head\<rparr>"

definition Flush :: "H265 \<Rightarrow> H265" where
  "Flush vt = vt\<lparr>flushed := flushed vt @ [Value vt], Value := \<lparr>IFrame = False, AUList = []\<rparr>\<rparr>"

text \<open>
  \<^verbatim>\<open>vt.ParamaterSets[i] = slice\<close>: an index outside the slice panics.
\<close>

definition setParamaterSet :: "nat \<Rightarrow> byte list \<Rightarrow> H265 \<Rightarrow> Abort + H265" where
  "setParamaterSet i nalu vt =
     (if i < length (ParamaterSets vt)
      then Inr (vt\<lparr>ParamaterSets := (ParamaterSets vt)[i := nalu]\<rparr>)
      else Inl Panic)"

text \<open>
  \<^verbatim>\<open>func (vt *H265) WriteSliceBytes(slice []byte)\<close>. \<^verbatim>\<open>slice[0]\<close> panics on an empty
  slice. The cases are tried in the order of the switch.
\<close>

definition WriteSliceBytes :: "Env \<Rightarrow> byte list \<Rightarrow> H265 \<Rightarrow> Abort + H265" where
  "WriteSliceBytes env nalu vt =
     (case nalu of
        [] \<Rightarrow> Inl Panic
      | b # _ \<Rightarrow>
         (let t = ParseH265NALUType b in
          if t = NAL_UNIT_VPS then
            setParamaterSet 0 nalu (vt\<lparr>VPS := Some nalu\<rparr>)
          else if t = NAL_UNIT_SPS then
            (case setParamaterSet 1 nalu (vt\<lparr>SPS := Some nalu\<rparr>) of
               Inl e \<Rightarrow> Inl e
             | Inr vt1 \<Rightarrow>
                 (let spsInfo = ParseHevcSPS env nalu;
                      vt2 = (if Width spsInfo \<noteq> Width (SPSInfo vt1) \<or> Height spsInfo \<noteq> Height (SPSInfo vt1)
                             then report [TrackDebug ''SPS''] vt1 else vt1)
                  in Inr (vt2\<lparr>SPSInfo := spsInfo\<rparr>)))
          else if t = NAL_UNIT_PPS then
            (case setParamaterSet 2 nalu (vt\<lparr>PPS := Some nalu\<rparr>) of
               Inl e \<Rightarrow> Inl e
             | Inr vt1 \<Rightarrow>
                 (case (VPS vt1, SPS vt1, PPS vt1) of
                    (Some vps, Some sps, Some pps) \<Rightarrow>
                      (case BuildH265SeqHeaderFromVpsSpsPps env vps sps pps of
                         Inr extraData \<Rightarrow> Inr (WriteSequenceHead extraData vt1)
                       | Inl err \<Rightarrow>
                           Inr (report [TrackError ''H265 BuildH265SeqHeaderFromVpsSpsPps'', StreamClose] vt1))
                  | _ \<Rightarrow> Inr vt1))
          else if t \<in> set keySliceTypes then
            Inr (AppendAuBytes nalu (vt\<lparr>Value := (Value vt)\<lparr>IFrame := True\<rparr>\<rparr>))
          else if t \<le> 9 then
            Inr (AppendAuBytes nalu (vt\<lparr>Value := (Value vt)\<lparr>IFrame := False\<rparr>\<rparr>))
          else if t = NAL_UNIT_SEI then
            Inr (AppendAuBytes nalu vt)
          else
            Inr (report [TrackWarn ''h265 slice type not supported''] vt)))"

text \<open>
  \<^verbatim>\<open>func (vt *H265) writeSequenceHead(head []byte) (err error)\<close>. The three slices
  are assigned whatever the error is; \<^verbatim>\<open>vt.SequenceHead[26]\<close> panics on a header of
  fewer than 27 bytes.
\<close>

definition writeSequenceHead :: "Env \<Rightarrow> byte list \<Rightarrow> H265 \<Rightarrow> Abort + (GoError option \<times> H265)" where
  "writeSequenceHead env head vt =
     (let vt1 = WriteSequenceHead head vt;
          (vps, sps, pps, err) = ParseVpsSpsPpsFromSeqHeaderWithoutMalloc env (SequenceHead vt1);
          vt2 = vt1\<lparr>VPS := vps, SPS := sps, PPS := pps\<rparr>
      in case err of
           None \<Rightarrow>
             (let vt3 = vt2\<lparr>SPSInfo := ParseHevcSPS env (SequenceHead vt2)\<rparr>
              in if 26 < length (SequenceHead vt3)
                 then Inr (err, vt3\<lparr>nalulenSize := uint (SequenceHead vt3 ! 26 AND 0x03) + 1\<rparr>)
                 else Inl Panic)
         | Some e \<Rightarrow> Inr (err, report [TrackError ''H265 ParseVpsSpsPps Error'', StreamClose] vt2))"

subsection \<open>AVCC input\<close>

text \<open>\<^verbatim>\<open>xs[i] = v\<close> on a Go slice: an index outside the slice panics.\<close>

definition setIndex :: "nat \<Rightarrow> byte \<Rightarrow> byte list \<Rightarrow> Abort + byte list" where
  "setIndex i v xs = (if i < length xs then Inr (xs[i := v]) else Inl Panic)"

text \<open>
  \<^verbatim>\<open>copy(dst, src)\<close>: the first \<open>min (len dst) (len src)\<close> bytes of \<open>dst\<close> become those
  of \<open>src\<close> (as they were before the call, also when the two overlap).
\<close>

definition goCopy :: "byte list \<Rightarrow> byte list \<Rightarrow> byte list" where
  "goCopy dst src = (let n = min (length dst) (length src) in take n src @ drop n dst)"

text \<open>
  The body of the case \<^verbatim>\<open>PacketTypeCodedFrames\<close> on the buffer \<^verbatim>\<open>frame.Next.Value\<close>:
  two indexed writes, \<^verbatim>\<open>copy(v[2:], v[5:])\<close>, where \<^verbatim>\<open>v[5:]\<close> panics on fewer than
  five bytes, and the cut \<^verbatim>\<open>v[:len(v)-3]\<close>.
\<close>

definition codedFramesValue :: "byte \<Rightarrow> byte list \<Rightarrow> Abort + byte list" where
  "codedFramesValue b0 v =
     (case setIndex 0 (b0 AND 0x7F AND 0xFC) v of
        Inl e \<Rightarrow> Inl e
      | Inr v1 \<Rightarrow>
         (case setIndex 1 0x01 v1 of
            Inl e \<Rightarrow> Inl e
          | Inr v2 \<Rightarrow>
             (if length v2 < 5 then Inl Panic
              else (let v3 = take 2 v2 @ goCopy (drop 2 v2) (drop 5 v2)
                    in Inr (take (length v3 - 3) v3)))))"

text \<open>The body of the case \<^verbatim>\<open>PacketTypeCodedFramesX\<close>: five indexed writes.\<close>

definition codedFramesXValue :: "byte \<Rightarrow> byte list \<Rightarrow> Abort + byte list" where
  "codedFramesXValue b0 v =
     (case setIndex 0 (b0 AND 0x7F AND 0xFC) v of
        Inl e \<Rightarrow> Inl e
      | Inr v1 \<Rightarrow>
         (case setIndex 1 0x01 v1 of
            Inl e \<Rightarrow> Inl e
          | Inr v2 \<Rightarrow>
             (case setIndex 2 0 v2 of
                Inl e \<Rightarrow> Inl e
              | Inr v3 \<Rightarrow>
                 (case setIndex 3 0 v3 of
                    Inl e \<Rightarrow> Inl e
                  | Inr v4 \<Rightarrow> setIndex 4 0 v4))))"

text \<open>
  The header that the case \<^verbatim>\<open>PacketTypeSequenceStart\<close> makes of the frame's bytes:
  bytes 0 to 4 become \<^verbatim>\<open>1c 00 00 00 00\<close>.
\<close>

definition sequenceStartHeader :: "byte list \<Rightarrow> Abort + byte list" where
  "sequenceStartHeader header =
     (case setIndex 0 0x1c header of
        Inl e \<Rightarrow> Inl e
      | Inr h1 \<Rightarrow>
         (case setIndex 1 0x00 h1 of
            Inl e \<Rightarrow> Inl e
          | Inr h2 \<Rightarrow>
             (case setIndex 2 0x00 h2 of
                Inl e \<Rightarrow> Inl e
              | Inr h3 \<Rightarrow>
                 (case setIndex 3 0x00 h3 of
                    Inl e \<Rightarrow> Inl e
                  | Inr h4 \<Rightarrow> setIndex 4 0x00 h4))))"

text \<open>
  \<^verbatim>\<open>return vt.Video.WriteAVCC(ts, frame)\<close>: the frame is handed on, which the trace
  records, and the callee's error is the result.
\<close>

definition forward :: "Env \<Rightarrow> 32 word \<Rightarrow> BLL \<Rightarrow> H265 \<Rightarrow> Abort + (GoError option \<times> BLL \<times> H265)" where
  "forward env ts frame vt =
     (let (err, vt') = VideoWriteAVCC env ts frame (report [ForwardAVCC ts frame] vt)
      in Inr (err, frame, vt'))"

text \<open>
  \<^verbatim>\<open>err = vt.writeSequenceHead(header); frame.Recycle(); return\<close>.
\<close>

definition submitSequenceHead :: "Env \<Rightarrow> byte list \<Rightarrow> BLL \<Rightarrow> H265 \<Rightarrow> Abort + (GoError option \<times> BLL \<times> H265)" where
  "submitSequenceHead env header frame vt =
     (case writeSequenceHead env header vt of
        Inl e \<Rightarrow> Inl e
      | Inr (err, vt') \<Rightarrow> Inr (err, frame, report [Recycle] vt'))"

text \<open>
  \<^verbatim>\<open>func (vt *H265) WriteAVCC(ts uint32, frame *util.BLL) (err error)\<close>. The result
  is a panic, or the error returned, the frame as the call leaves it and the track.
\<close>

definition WriteAVCC :: "Env \<Rightarrow> 32 word \<Rightarrow> BLL \<Rightarrow> H265 \<Rightarrow> Abort + (GoError option \<times> BLL \<times> H265)" where
  "WriteAVCC env ts frame vt =
     (if ByteLength frame < 6
      then Inr (Some ErrShortWrite, frame, report [TrackError ''AVCC data too short''] vt)
      else
        (let b0 = GetByte frame 0 in
         if drop_bit 4 b0 AND 0b1000 \<noteq> 0 then
           (let packetType = b0 AND 0b1111 in
            if packetType = PacketTypeSequenceStart env then
              (case sequenceStartHeader (ToBytes frame) of
                 Inl e \<Rightarrow> Inl e
               | Inr header \<Rightarrow> submitSequenceHead env header frame vt)
            else if packetType = PacketTypeCodedFrames env then
              (case items frame of
                 [] \<Rightarrow> Inl Panic
               | v # rest \<Rightarrow>
                  (case codedFramesValue b0 v of
                     Inl e \<Rightarrow> Inl e
                   | Inr v' \<Rightarrow>
                       forward env ts (frame\<lparr>items := v' # rest, ByteLength := ByteLength frame - 3\<rparr>) vt))
            else if packetType = PacketTypeCodedFramesX env then
              (case items frame of
                 [] \<Rightarrow> Inl Panic
               | v # rest \<Rightarrow>
                  (case codedFramesXValue b0 v of
                     Inl e \<Rightarrow> Inl e
                   | Inr v' \<Rightarrow> forward env ts (frame\<lparr>items := v' # rest\<rparr>) vt))
            else Inr (None, frame, vt))
         else if GetByte frame 1 = 0 then submitSequenceHead env (ToBytes frame) frame vt
         else forward env ts frame vt))"

subsection \<open>RTP input\<close>

record RTPFrame =
  Payload :: "byte list"
  Marker :: bool
  Timestamp :: "32 word"

text \<open>
  Modelled from the spec: \<^verbatim>\<open>RTPFrame.H265Type\<close>, \<^verbatim>\<open>util.Bit1\<close>, the reads of
  \<^verbatim>\<open>util.Buffer\<close> and \<^verbatim>\<open>Video.WriteSliceByte\<close> are not among the sources. Section 6:
  the type of a payload is read from its first byte, "length prefixes are big-endian
  unsigned 16". Section 4.1: "FU-Header bit 7 = Start, bit 6 = End", so \<^verbatim>\<open>Bit1(b, 0)\<close>
  is the top bit; "on Start, emit a new NALU header ... then b1": \<^verbatim>\<open>WriteSliceByte\<close>
  starts a new NAL unit of the access unit with the bytes given.
\<close>

definition H265Type :: "RTPFrame \<Rightarrow> Abort + byte" where
  "H265Type frame = (case Payload frame of [] \<Rightarrow> Inl Panic | b # _ \<Rightarrow> Inr (ParseH265NALUType b))"

definition Bit1 :: "byte \<Rightarrow> nat \<Rightarrow> bool" where
  "Bit1 b i = bit b (7 - i)"

definition WriteSliceByte :: "byte list \<Rightarrow> H265 \<Rightarrow> H265" where
  "WriteSliceByte bs vt = AppendAuBytes bs vt"

definition ReadUint16 :: "byte list \<Rightarrow> Abort + (nat \<times> byte list)" where
  "ReadUint16 buffer =
     (case buffer of
        hi # lo # rest \<Rightarrow> Inr (unat hi * 256 + unat lo, rest)
      | _ \<Rightarrow> Inl Panic)"

text \<open>
  The loop of the aggregation-packet case over the rest of the buffer. The second
  component of the result says whether the loop ran to the end of the buffer; when a
  length runs past the buffer the Go code returns from \<^verbatim>\<open>WriteRTPFrame\<close> at once.
\<close>

function aggregated :: "Env \<Rightarrow> byte list \<Rightarrow> H265 \<Rightarrow> Abort + (H265 \<times> bool)" where
  "aggregated env buffer vt =
     (if buffer = [] then Inr (vt, True)
      else (case ReadUint16 buffer of
              Inl e \<Rightarrow> Inl e
            | Inr (l, rest) \<Rightarrow>
                (if l \<le> length rest
                 then (case WriteSliceBytes env (take l rest) vt of
                         Inl e \<Rightarrow> Inl e
                       | Inr vt' \<Rightarrow> aggregated env (drop l rest) vt')
                 else Inr (vt, False))))"
  by pat_completeness auto
termination
  by (relation "measure (\<lambda>(env, buffer, vt). length buffer)")
     (auto simp: ReadUint16_def split: list.splits)

declare aggregated.simps [simp del]

text \<open>
  The case \<^verbatim>\<open>NAL_UNIT_RTP_FU\<close>: the three header bytes, a new NAL unit on the start
  bit, and the rest of the payload pushed onto the last NAL unit of the access unit
  (\<^verbatim>\<open>rv.AUList.Pre\<close>) when there is one. A payload of fewer than three bytes returns
  from \<^verbatim>\<open>WriteRTPFrame\<close> at once: the second component is \<open>False\<close>.
\<close>

definition fragmentUnit :: "byte list \<Rightarrow> H265 \<Rightarrow> H265 \<times> bool" where
  "fragmentUnit buffer vt =
     (if \<not> 3 \<le> length buffer then (vt, False)
      else
        (let first3 = take 3 buffer;
             rest = drop 3 buffer;
             fuHeader = first3 ! 2;
             naluType = fuHeader AND 0b00111111;
             vt1 = (if Bit1 fuHeader 0
                    then WriteSliceByte [(first3 ! 0 AND 0b10000001) OR push_bit 1 naluType, first3 ! 1] vt
                    else vt);
             au = AUList (Value vt1)
         in (if au = [] then vt1
             else vt1\<lparr>Value := (Value vt1)\<lparr>AUList := butlast au @ [PushBuffer rest (last au)]\<rparr>\<rparr>,
             True)))"

text \<open>The marker branch at the end of \<^verbatim>\<open>WriteRTPFrame\<close>.\<close>

definition onMarker :: "RTPFrame \<Rightarrow> H265 \<Rightarrow> H265" where
  "onMarker frame vt =
     (if Marker frame
      then (let vt1 = report [GenerateTimestamp (Timestamp frame)] vt;
                vt2 = (if \<not> dcChanged vt1 \<and> IFrame (Value vt1) then report [InsertDCRtp] vt1 else vt1)
            in Flush vt2)
      else vt)"

text \<open>\<^verbatim>\<open>func (vt *H265) WriteRTPFrame(frame *RTPFrame)\<close>.\<close>

definition WriteRTPFrame :: "Env \<Rightarrow> RTPFrame \<Rightarrow> H265 \<Rightarrow> Abort + H265" where
  "WriteRTPFrame env frame vt =
     (case H265Type frame of
        Inl e \<Rightarrow> Inl e
      | Inr t \<Rightarrow>
         (if t = NAL_UNIT_RTP_AP then
            (case ReadUint16 (Payload frame) of
               Inl e \<Rightarrow> Inl e
             | Inr (hdr, buffer) \<Rightarrow>
                 (case aggregated env buffer vt of
                    Inl e \<Rightarrow> Inl e
                  | Inr (vt', finished) \<Rightarrow> Inr (if finished then onMarker frame vt' else vt')))
          else if t = NAL_UNIT_RTP_FU then
            (case fragmentUnit (Payload frame) vt of
               (vt', finished) \<Rightarrow> Inr (if finished then onMarker frame vt' else vt'))
          else
            (case WriteSliceBytes env (Payload frame) vt of
               Inl e \<Rightarrow> Inl e
             | Inr vt' \<Rightarrow> Inr (onMarker frame vt'))))"

text \<open>A run of RTP frames written one after the other; a panic ends the run.\<close>

fun WriteRTPFrames :: "Env \<Rightarrow> RTPFrame list \<Rightarrow> H265 \<Rightarrow> Abort + H265" where
  "WriteRTPFrames env [] vt = Inr vt"
| "WriteRTPFrames env (frame # frames) vt =
     (case WriteRTPFrame env frame vt of
        Inl e \<Rightarrow> Inl e
      | Inr vt' \<Rightarrow> WriteRTPFrames env frames vt')"

text \<open>A run of NAL units written one after the other.\<close>

fun WriteSlices :: "Env \<Rightarrow> byte list list \<Rightarrow> H265 \<Rightarrow> Abort + H265" where
  "WriteSlices env [] vt = Inr vt"
| "WriteSlices env (nalu # nalus) vt =
     (case WriteSliceBytes env nalu vt of
        Inl e \<Rightarrow> Inl e
      | Inr vt' \<Rightarrow> WriteSlices env nalus vt')"

subsection \<open>RTP output\<close>

text \<open>
  Modelled from the spec: the reader of a \<^verbatim>\<open>util.BLL\<close> is not among the sources.
  \<^verbatim>\<open>ReadByte\<close> gives the next byte (zero at the end, where the Go code drops the
  error), \<^verbatim>\<open>ReadN(n)\<close> gives the next \<open>n\<close> bytes, fewer at the end, as a list of
  buffers that is empty when no byte is left.
\<close>

definition ReadByte :: "byte list \<Rightarrow> byte \<times> byte list" where
  "ReadByte r = (case r of [] \<Rightarrow> (0, []) | b # rest \<Rightarrow> (b, rest))"

definition ReadN :: "nat \<Rightarrow> byte list \<Rightarrow> byte list list \<times> byte list" where
  "ReadN n r = (if take n r = [] then ([], r) else ([take n r], drop n r))"

text \<open>
  The loop \<^verbatim>\<open>for bufs := r.ReadN(RTPMTU); len(bufs) > 0; bufs = r.ReadN(RTPMTU)\<close> of
  \<^verbatim>\<open>CompleteRTP\<close>: one packet, the three header bytes and then the buffers read, for
  each round.
\<close>

function followingUnits :: "nat \<Rightarrow> byte list \<Rightarrow> byte list \<Rightarrow> byte list list list" where
  "followingUnits mtu header r =
     (case ReadN mtu r of
        (bufs, r') \<Rightarrow> (if length bufs > 0 then (header # bufs) # followingUnits mtu header r' else []))"
  by pat_completeness auto
termination
  by (relation "measure (\<lambda>(mtu, header, r). length r)")
     (auto simp: ReadN_def split: if_splits)

declare followingUnits.simps [simp del]

text \<open>
  \<^verbatim>\<open>buf[0][2] |= 1 << 6\<close> after the loop: \<open>buf\<close> is the packet appended last, and its
  header bytes are shared with the entry of \<open>out\<close>.
\<close>

definition setEndBit :: "byte list list list \<Rightarrow> byte list list list" where
  "setEndBit packets =
     (case rev packets of
        [] \<Rightarrow> []
      | p # before \<Rightarrow>
          rev before @
            [(case p of
                [b0, b1, fu] # bufs \<Rightarrow> [b0, b1, fu OR push_bit 6 1] # bufs
              | _ \<Rightarrow> p)])"

text \<open>
  The else branch of \<^verbatim>\<open>CompleteRTP\<close> for one NAL unit \<open>au\<close>: the packets that it
  appends to \<open>out\<close>.
\<close>

definition fragmentationUnits :: "nat \<Rightarrow> BLL \<Rightarrow> byte list list list" where
  "fragmentationUnits mtu au =
     (let r = ToBytes au;
          (b0, r1) = ReadByte r;
          (b1, r2) = ReadByte r1;
          naluType = ParseH265NALUType b0;
          b0' = push_bit 1 NAL_UNIT_RTP_FU OR (b0 AND 0b10000001);
          (bufs, r3) = ReadN (mtu - 3) r2;
          first = [b0', b1, push_bit 7 1 OR naluType] # bufs
      in setEndBit (first # followingUnits mtu [b0', b1, naluType] r3))"

text \<open>
  \<^verbatim>\<open>func (vt *H265) CompleteRTP(value *AVFrame)\<close>: the value \<open>out\<close> that it hands
  to \<^verbatim>\<open>PacketizeRTP\<close>, a list of packets, each a list of buffers. A nil parameter set
  is an empty buffer.
\<close>

definition CompleteRTP :: "Env \<Rightarrow> AVFrame \<Rightarrow> H265 \<Rightarrow> byte list list list" where
  "CompleteRTP env val vt =
     (if IFrame val
      then [[case VPS vt of None \<Rightarrow> [] | Some x \<Rightarrow> x],
            [case SPS vt of None \<Rightarrow> [] | Some x \<Rightarrow> x],
            [case PPS vt of None \<Rightarrow> [] | Some x \<Rightarrow> x]]
      else [])
     @ concat (map (\<lambda>au. if ByteLength au < int (RTPMTU env)
                          then [ownValue au # items au]
                          else fragmentationUnits (RTPMTU env) au)
                   (AUList (Value vt)))"

text \<open>
  Modelled from the spec: \<^verbatim>\<open>PacketizeRTP\<close> is not among the sources. Each packet of
  \<open>out\<close> becomes one RTP frame whose payload is the packet's buffers one after the
  other.
\<close>

definition PacketizeRTP :: "32 word \<Rightarrow> byte list list list \<Rightarrow> RTPFrame list" where
  "PacketizeRTP ts out = map (\<lambda>p. \<lparr>Payload = concat p, Marker = False, Timestamp = ts\<rparr>) out"

section \<open>Example inputs\<close>

definition idleStream :: Stream where
  "idleStream = (newStream ''live/cam1'' (10 * Millisecond))\<lparr>IdleTimeout := 5 * Second\<rparr>"

definition dataTrack :: Track where
  "dataTrack = \<lparr>trackId = 2, Name = ''data'', Kind = KindData, trackState = TrackStateOnline, narrowed = 0\<rparr>"

definition orphanStream :: Stream where
  "orphanStream = (newStream ''live/cam1'' (10 * Millisecond))
     \<lparr>State := STATE_PUBLISHING,
      SEHistory := [\<lparr>Action = ACTION_PUBLISH, From = STATE_WAITPUBLISH\<rparr>],
      Tracks := \<lparr>Map = [(''data'', dataTrack)], MainVideo = None\<rparr>\<rparr>"

definition camPublisher :: IPublisher where
  "camPublisher = \<lparr>pubId = 1, WaitCloseTimeout = 2 * Second, PubAudio = True, PubVideo = True, pubClosed = False\<rparr>"

definition idlePublishedStream :: Stream where
  "idlePublishedStream = idleStream\<lparr>Publisher := Some camPublisher\<rparr>"

definition h265Track :: Track where
  "h265Track = \<lparr>trackId = 1, Name = ''h265'', Kind = KindVideo, trackState = TrackStateOnline, narrowed = 0\<rparr>"

definition publishingStream :: Stream where
  "publishingStream = (newStream ''live/cam1'' (10 * Millisecond))
     \<lparr>State := STATE_PUBLISHING,
      Publisher := Some camPublisher,
      SEHistory := [\<lparr>Action = ACTION_PUBLISH, From = STATE_WAITPUBLISH\<rparr>],
      Tracks := \<lparr>Map = [(''h265'', h265Track)], MainVideo = Some 1\<rparr>\<rparr>"

definition waitCloseStream :: Stream where
  "waitCloseStream = (newStream ''live/cam1'' (10 * Millisecond))
     \<lparr>State := STATE_WAITCLOSE,
      Publisher := Some camPublisher,
      SEHistory := [\<lparr>Action = ACTION_PUBLISH, From = STATE_WAITPUBLISH\<rparr>,
                    \<lparr>Action = ACTION_LASTLEAVE, From = STATE_PUBLISHING\<rparr>],
      Tracks := \<lparr>Map = [(''h265'', h265Track)], MainVideo = Some 1\<rparr>\<rparr>"

definition viewer :: ISubscriber where
  "viewer = \<lparr>subId = 1, WaitTimeout = 30 * Second, SubAudio = True, SubVideo = True,
     SubAudioTracks = [], SubVideoTracks = [], SubAudioArgName = ''ats'',
     SubVideoArgName = ''vts'', SubDataArgName = ''dts'', Args = [], subClosed = False\<rparr>"

definition noWaits :: waitTracks where
  "noWaits = \<lparr>waitPromise = 3, audio = None, video = None, data = None\<rparr>"

text \<open>
  A stream just after close: the state is Closed, the queue is closed, the timer is
  stopped; the publisher and one subscriber are still there (the loop disposes of them
  only when it finds the queue closed and empty).
\<close>

definition closedStream :: Stream where
  "closedStream = (newStream ''live/cam1'' (10 * Millisecond))
     \<lparr>timeout := Stopped,
      actionChan := \<lparr>chanItems = [], chanClosed = True\<rparr>,
      State := STATE_CLOSED,
      Publisher := Some camPublisher,
      SEHistory := [\<lparr>Action = ACTION_PUBLISH, From = STATE_WAITPUBLISH\<rparr>,
                    \<lparr>Action = ACTION_CLOSE, From = STATE_PUBLISHING\<rparr>],
      Subscribers := \<lparr>public = [(viewer, noWaits)], internal = [], waitAborted = False\<rparr>,
      trace := []\<rparr>"

definition otherPublisher :: IPublisher where
  "otherPublisher = \<lparr>pubId = 2, WaitCloseTimeout = 0, PubAudio = True, PubVideo = True, pubClosed = False\<rparr>"

subsection \<open>Facts about the helpers of \<open>action\<close>\<close>

lemma emit_fields [simp]:
  "State (emit es r) = State r"
  "SEHistory (emit es r) = SEHistory r"
  "Tracks (emit es r) = Tracks r"
  "timeout (emit es r) = timeout r"
  "Publisher (emit es r) = Publisher r"
  "Subscribers (emit es r) = Subscribers r"
  "IdleTimeout (emit es r) = IdleTimeout r"
  "DelayCloseTimeout (emit es r) = DelayCloseTimeout r"
  "PublishTimeout (emit es r) = PublishTimeout r"
  "Path (emit es r) = Path r"
  "actionChan (emit es r) = actionChan r"
  "trace (emit es r) = trace r @ es"
  by (simp_all add: emit_def)

lemma notify_fields [simp]:
  "State (notify e r) = State r"
  "SEHistory (notify e r) = SEHistory r"
  "Tracks (notify e r) = Tracks r"
  "timeout (notify e r) = timeout r"
  "Publisher (notify e r) = Publisher r"
  "Subscribers (notify e r) = Subscribers r"
  "actionChan (notify e r) = actionChan r"
  by (simp_all add: notify_def)

lemma trace_notify:
  "trace (notify e r) =
     trace r @ EventBus e # (case Publisher r of None \<Rightarrow> [] | Some p \<Rightarrow> [PublisherOnEvent (PEvent e)])"
  by (simp add: notify_def)

lemma enterWaitPublish_fields [simp]:
  "State (enterWaitPublish ev r) = State r"
  "SEHistory (enterWaitPublish ev r) = SEHistory r"
  "Publisher (enterWaitPublish ev r) = Publisher r"
  "Subscribers (enterWaitPublish ev r) = Subscribers r"
  "actionChan (enterWaitPublish ev r) = actionChan r"
  by (simp_all add: enterWaitPublish_def Let_def split: option.splits prod.splits)

lemma enterWaitClose_fields [simp]:
  "State (enterWaitClose r) = State r"
  "SEHistory (enterWaitClose r) = SEHistory r"
  "Publisher (enterWaitClose r) = Publisher r"
  "Subscribers (enterWaitClose r) = Subscribers r"
  "Tracks (enterWaitClose r) = Tracks r"
  "trace (enterWaitClose r) = trace r"
  "actionChan (enterWaitClose r) = actionChan r"
  by (simp_all add: enterWaitClose_def)

lemma enterClosed_fields [simp]:
  "State (enterClosed ev r) = State r"
  "SEHistory (enterClosed ev r) = SEHistory r"
  "Publisher (enterClosed ev r) = Publisher r"
  "Subscribers (enterClosed ev r) = Subscribers r"
  "Tracks (enterClosed ev r) = Tracks r"
  "timeout (enterClosed ev r) = Stopped"
  "actionChan (enterClosed ev r) = (actionChan r)\<lparr>chanClosed := True\<rparr>"
  "trace (enterClosed ev r) = trace r @ [Broadcast (PEvent (SEclose ev)), StreamsDelete (Path r)]"
  by (simp_all add: enterClosed_def)

text \<open>An action that the table does not allow from the current state.\<close>

lemma action_wrong:
  "StreamFSM (State r) a = None \<Longrightarrow>
     action closes a r = Some (False, emit [LogDebug ''wrong action''] r)"
  by (simp add: action.simps Next_def)

text \<open>The recursive call of \<open>action\<close>: last-leave, made in state Publishing.\<close>

lemma action_LASTLEAVE_publishing:
  "State r = STATE_PUBLISHING \<Longrightarrow>
     action closes ACTION_LASTLEAVE r =
       Some (True,
         notify (SEwaitClose \<lparr>Action = ACTION_LASTLEAVE, From = STATE_PUBLISHING\<rparr>)
           (enterWaitClose
              (emit [LogTransition STATE_PUBLISHING STATE_WAITCLOSE ACTION_LASTLEAVE]
                 (r\<lparr>State := STATE_WAITCLOSE,
                     SEHistory := SEHistory r @ [\<lparr>Action = ACTION_LASTLEAVE, From = STATE_PUBLISHING\<rparr>]\<rparr>))))"
  by (simp add: action.simps Next_def Let_def)

text \<open>
  Every call of \<open>action\<close> that the table allows and that returns, returns true, only
  appends to the history, and the appended events are a path of the table from the
  old state to the new one.
\<close>

lemma action_allowed:
  assumes ret: "action closes a r = Some (ok, r')"
    and allowed: "StreamFSM (State r) a = Some t"
  shows "ok \<and> (\<exists>evs. evs \<noteq> [] \<and> SEHistory r' = SEHistory r @ evs \<and> follows (State r) evs (State r'))"
proof (cases t)
  case STATE_WAITPUBLISH
  with ret allowed show ?thesis
    by (auto simp: action.simps Next_def Let_def)
next
  case STATE_WAITCLOSE
  with ret allowed show ?thesis
    by (auto simp: action.simps Next_def Let_def)
next
  case STATE_CLOSED
  with ret allowed show ?thesis
    by (auto simp: action.simps Next_def Let_def split: option.splits)
next
  case STATE_PUBLISHING
  let ?e = "\<lparr>Action = a, From = State r\<rparr>"
  let ?l = "\<lparr>Action = ACTION_LASTLEAVE, From = STATE_PUBLISHING\<rparr>"
  show ?thesis
  proof (cases "IdleTimeout r > 0 \<and> Len (Subscribers r) = 0")
    case False
    with ret allowed STATE_PUBLISHING show ?thesis
      by (auto simp: action.simps Next_def Let_def)
  next
    case True
    with ret allowed STATE_PUBLISHING
    have "ok" and "SEHistory r' = SEHistory r @ [?e, ?l]" and "State r' = STATE_WAITCLOSE"
      by (auto simp: action.simps [of closes a r] Next_def Let_def action_LASTLEAVE_publishing)
    moreover have "follows (State r) [?e, ?l] STATE_WAITCLOSE"
      using allowed STATE_PUBLISHING by simp
    ultimately show ?thesis by auto
  qed
qed

lemma StreamFSM_spec_table:
  "StreamFSM s b = Some t \<longleftrightarrow> (s, b, t) \<in> set spec_table"
  by (cases s; cases b; cases t; simp add: spec_table_def)

lemma action_to_waitpublish:
  "StreamFSM (State r) a = Some STATE_WAITPUBLISH \<Longrightarrow>
   action closes a r =
     Some (True, notify (SEwaitPublish \<lparr>Action = a, From = State r\<rparr> (Publisher r))
       (enterWaitPublish \<lparr>Action = a, From = State r\<rparr>
          (emit [LogTransition (State r) STATE_WAITPUBLISH a]
             (r\<lparr>State := STATE_WAITPUBLISH, SEHistory := SEHistory r @ [\<lparr>Action = a, From = State r\<rparr>]\<rparr>))))"
  by (simp add: action.simps Next_def Let_def)

lemma action_to_publishing_stay:
  "StreamFSM (State r) a = Some STATE_PUBLISHING \<Longrightarrow>
   \<not> (IdleTimeout r > 0 \<and> Len (Subscribers r) = 0) \<Longrightarrow>
   action closes a r =
     Some (True,
       notify (if SEHistory r \<noteq> [] then SErepublish \<lparr>Action = a, From = State r\<rparr>
               else SEpublish \<lparr>Action = a, From = State r\<rparr>)
         ((emit [LogTransition (State r) STATE_PUBLISHING a,
                 Broadcast (PEvent (if SEHistory r \<noteq> [] then SErepublish \<lparr>Action = a, From = State r\<rparr>
                                    else SEpublish \<lparr>Action = a, From = State r\<rparr>))]
             (r\<lparr>State := STATE_PUBLISHING, SEHistory := SEHistory r @ [\<lparr>Action = a, From = State r\<rparr>]\<rparr>))
          \<lparr>timeout := Armed (PublishTimeout r)\<rparr>))"
  by (auto simp add: action.simps Next_def Let_def emit_def)

lemma action_to_publishing_leave:
  "StreamFSM (State r) a = Some STATE_PUBLISHING \<Longrightarrow>
   IdleTimeout r > 0 \<and> Len (Subscribers r) = 0 \<Longrightarrow>
   action closes a r =
     action closes ACTION_LASTLEAVE
       (emit [LogTransition (State r) STATE_PUBLISHING a,
              Broadcast (PEvent (if SEHistory r \<noteq> [] then SErepublish \<lparr>Action = a, From = State r\<rparr>
                                 else SEpublish \<lparr>Action = a, From = State r\<rparr>))]
          (r\<lparr>State := STATE_PUBLISHING, SEHistory := SEHistory r @ [\<lparr>Action = a, From = State r\<rparr>]\<rparr>))"
  by (auto simp add: action.simps [of closes a r] Next_def Let_def emit_def)

lemma Pick_member:
  "Pick ss = Some sub \<Longrightarrow> sub \<in> fst ` set (public ss @ internal ss)"
  by (cases "public ss"; cases "internal ss") (auto simp: Pick_def)

lemma Pick_None: "Pick ss = None \<longleftrightarrow> Len ss = 0"
  by (auto simp: Pick_def Len_def split: list.splits)

lemma setTracksOffline_all:
  "\<forall>(n, t) \<in> set (Map (setTracksOffline ts)). trackState t = TrackStateOffline"
  by (auto simp: setTracksOffline_def)

lemma setTracksOffline_names:
  "map fst (Map (setTracksOffline ts)) = map fst (Map ts)"
  by (simp add: setTracksOffline_def case_prod_unfold comp_def)

lemma enterWaitPublish_timeout:
  "timeout (enterWaitPublish ev r) =
     Armed (let pubWait = (case Publisher r of None \<Rightarrow> 0 | Some p \<Rightarrow> WaitCloseTimeout p)
            in if pubWait \<noteq> 0 then pubWait
               else (case Pick (Subscribers r) of
                       Some sub \<Rightarrow> WaitTimeout sub
                     | None \<Rightarrow> 10 * Millisecond))"
  by (simp add: enterWaitPublish_def Let_def split: option.splits)

lemma enterWaitPublish_Tracks:
  "Tracks (enterWaitPublish ev r) =
     (case Publisher r of None \<Rightarrow> Tracks r | Some p \<Rightarrow> setTracksOffline (Tracks r))"
  by (simp add: enterWaitPublish_def Let_def split: option.splits)

lemma enterWaitPublish_trace:
  "trace (enterWaitPublish ev r) =
     trace r @ OnPublisherLost ev #
       (case Pick (Subscribers r) of
          None \<Rightarrow> []
        | Some sub \<Rightarrow> [Broadcast (PEvent (SEwaitPublish ev (Publisher r)))])
       @ [LogDebug ''wait publisher'']"
  by (simp add: enterWaitPublish_def Let_def split: option.splits)

subsection \<open>The serial loop on a closed stream\<close>

lemma action_closed:
  "State s = STATE_CLOSED \<Longrightarrow> action closes a s = Some (False, emit [LogDebug ''wrong action''] s)"
  by (simp add: action_wrong)

lemma actionThen_closed:
  "State s = STATE_CLOSED \<Longrightarrow> actionThen closes a s = Inr (emit [LogDebug ''wrong action''] s)"
  by (simp add: actionThen_def action_closed)

lemma newlyDone_quiet: "\<forall>e \<in> set (newlyDone subs f). \<not> stateEventEffect e"
  by (auto simp: newlyDone_def)

lemma SubscribersAdd_quiet: "\<forall>e \<in> set (snd (SubscribersAdd suber w ss)). \<not> stateEventEffect e"
  by (simp add: SubscribersAdd_def)

lemma SubscribersOnTrack_quiet: "\<forall>e \<in> set (snd (SubscribersOnTrack t ss)). \<not> stateEventEffect e"
  by (simp add: SubscribersOnTrack_def newlyDone_quiet)

lemma AbortWait_quiet: "\<forall>e \<in> set (snd (AbortWait ss)). \<not> stateEventEffect e"
  by (simp add: AbortWait_def newlyDone_quiet)

lemma quietStep_refl: "quietStep s s"
  by (simp add: quietStep_def)

lemma quietStep_trans: "quietStep s s1 \<Longrightarrow> quietStep s1 s2 \<Longrightarrow> quietStep s s2"
  by (auto simp: quietStep_def)

lemma quietStep_emit:
  "\<forall>e \<in> set es. \<not> stateEventEffect e \<Longrightarrow> quietStep s (emit es s)"
  by (simp add: quietStep_def)

lemma onPublish_closed:
  assumes "State s = STATE_CLOSED"
  shows "\<exists>s'. onPublish closes v val s = Inr s' \<and> quietStep s s'"
  using assms
  by (simp add: onPublish_def IsClosed_def Let_def action_closed quietStep_def emit_def)

lemma onSuberClose_closed:
  assumes "State s = STATE_CLOSED"
  shows "\<exists>s'. onSuberClose closes sub s = Inr s' \<and> quietStep s s'"
  using assms
  by (simp add: onSuberClose_def Let_def actionThen_closed quietStep_def emit_def split: option.splits)

lemma onSubscribe_closed:
  assumes "State s = STATE_CLOSED"
  shows "\<exists>s'. onSubscribe closes v suber s = Inr s' \<and> quietStep s s'"
  using assms
  by (simp add: onSubscribe_def IsClosed_def Let_def quietStep_def emit_def SubscribersAdd_def
      split: option.splits)

lemma onTrackRemoved_closed:
  assumes "State s = STATE_CLOSED"
  shows "\<exists>s'. onTrackRemoved closes v s = Inr s' \<and> quietStep s s'"
  using assms
  by (simp add: onTrackRemoved_def Let_def actionThen_closed quietStep_def emit_def MapDelete_def
      split: option.splits)

lemma SubscribersOnTrack_quietD:
  "SubscribersOnTrack t ss = (subs, es) \<Longrightarrow> e \<in> set es \<Longrightarrow> stateEventEffect e \<Longrightarrow> False"
  using SubscribersOnTrack_quiet [of t ss] by auto

lemma AbortWait_quietD:
  "AbortWait ss = (subs, es) \<Longrightarrow> e \<in> set es \<Longrightarrow> stateEventEffect e \<Longrightarrow> False"
  using AbortWait_quiet [of ss] by auto

lemma onTrack_closed:
  assumes "State s = STATE_CLOSED"
  shows "onTrack closes v val s = Inl Panic \<or> (\<exists>s'. onTrack closes v val s = Inr s' \<and> quietStep s s')"
  using assms
  by (auto simp add: onTrack_def Let_def quietStep_def emit_def
      split: option.splits prod.splits dest: SubscribersOnTrack_quietD AbortWait_quietD)

lemma dispatch_closed:
  assumes "State s = STATE_CLOSED"
  shows "(\<exists>s' ps'. dispatch closes item (s, ps) = Inr (s', ps') \<and> quietStep s s')
     \<or> (dispatch closes item (s, ps) = Inl Panic \<and> Publisher s = None
         \<and> (\<exists>v t. item = PromiseTrack v t \<and> Kind t \<noteq> KindData))"
proof (cases item)
  case (SubPulse x)
  then show ?thesis by (simp add: quietStep_refl)
next
  case (PromisePublisher v val)
  then show ?thesis using onPublish_closed [OF assms, of closes v val] by auto
next
  case (PromiseSubscriber v suber)
  then show ?thesis using onSubscribe_closed [OF assms, of closes v suber] by auto
next
  case (Unsubscribe sub)
  then show ?thesis using onSuberClose_closed [OF assms, of closes sub] by auto
next
  case (TrackRemoved t)
  then show ?thesis using onTrackRemoved_closed [OF assms, of closes t] by auto
next
  case (PromiseTrack v t)
  have "onTrack closes v t s = Inl Panic \<Longrightarrow> Publisher s = None \<and> Kind t \<noteq> KindData"
    using assms
    by (auto simp: onTrack_def Let_def TracksAdd_def Narrow_def
        split: prod.splits if_splits TrackKind.splits)
  with PromiseTrack show ?thesis using onTrack_closed [OF assms, of closes v t] by auto
next
  case NoMoreTrack
  have "\<forall>e \<in> set (snd (AbortWait (Subscribers s))). \<not> stateEventEffect e"
    by (rule AbortWait_quiet)
  with NoMoreTrack show ?thesis
    by (auto simp: quietStep_def split: prod.splits)
next
  case (BareAction a)
  then show ?thesis using assms by (simp add: actionThen_closed quietStep_def)
next
  case UnknownItem
  then show ?thesis by (simp add: quietStep_def)
qed

subsection \<open>Publish requests and their promise\<close>

text \<open>
  A publish request can be handled on a closed stream: it is sent while the stream is
  publishing, after a close that is still on the queue; the loop closes the stream and
  then takes the request.
\<close>

lemma closed_with_pending_request_reachable:
  "\<exists>s1 s2 s3 s4.
     Receive (Some publishingStream) (BareAction ACTION_CLOSE) = (True, Some s1)
     \<and> Receive (Some s1) (PromisePublisher 7 (Some otherPublisher)) = (True, Some s2)
     \<and> runReceive [True] (s2, []) = Some (Inr ((s3, []), False))
     \<and> State s3 = STATE_CLOSED \<and> chanClosed (actionChan s3)
     \<and> runReceive [] (s3, []) = Some (Inr ((s4, []), False))
     \<and> promiseCalls 7 (trace s4) = [Reject 7 ErrStreamIsClosed, Reject 7 ErrBadStreamName]"
  by (simp add: publishingStream_def newStream_def Let_def Receive_def IsClosed_def Send_def
      runReceive_def actionThen_def action.simps [of "[True]"] Next_def notify_def emit_def
      enterClosed_def onPublish_def action_wrong otherPublisher_def camPublisher_def promiseCalls_def)

lemma promiseCalls_append [simp]: "promiseCalls v (xs @ ys) = promiseCalls v xs @ promiseCalls v ys"
  by (simp add: promiseCalls_def)

lemma action_no_promise_calls:
  assumes "action closes a r = Some (ok, r')"
  shows "\<exists>es. trace r' = trace r @ es \<and> promiseCalls v es = []"
proof (cases "StreamFSM (State r) a")
  case None
  with assms show ?thesis
    by (auto simp: action_wrong promiseCalls_def)
next
  case (Some t)
  show ?thesis
  proof (cases t)
    case STATE_WAITPUBLISH
    with assms Some show ?thesis
      by (auto simp: action_to_waitpublish trace_notify enterWaitPublish_trace promiseCalls_def
          split: option.splits)
  next
    case STATE_WAITCLOSE
    with assms Some show ?thesis
      by (auto simp: action.simps Next_def Let_def trace_notify promiseCalls_def split: option.splits)
  next
    case STATE_CLOSED
    with assms Some show ?thesis
      by (auto simp: action.simps Next_def Let_def trace_notify promiseCalls_def split: option.splits)
  next
    case STATE_PUBLISHING
    show ?thesis
    proof (cases "IdleTimeout r > 0 \<and> Len (Subscribers r) = 0")
      case False
      with assms Some STATE_PUBLISHING show ?thesis
        by (auto simp: action_to_publishing_stay trace_notify promiseCalls_def split: option.splits)
    next
      case True
      with assms Some STATE_PUBLISHING show ?thesis
        by (auto simp: action_to_publishing_leave action_LASTLEAVE_publishing trace_notify
            promiseCalls_def split: option.splits)
    qed
  qed
qed

text \<open>
  Outside Closed, the handling of a publish request calls exactly one of Resolve and
  Reject on the promise.
\<close>

lemma onPublish_once:
  assumes "State s \<noteq> STATE_CLOSED" and "onPublish closes v val s = Inr s'"
  shows "\<exists>es. trace s' = trace s @ es
           \<and> (promiseCalls v es = [Resolve v] \<or> promiseCalls v es = [Reject v ErrBadStreamName])"
proof -
  let ?s2 = "if map_option pubId (Publisher s) = map_option pubId val then s else s\<lparr>Publisher := val\<rparr>"
  from assms obtain ok s3 where act: "action closes ACTION_PUBLISH ?s2 = Some (ok, s3)"
    and res: "s' = (if ok \<or> map_option pubId (Publisher s) = map_option pubId val
                    then emit [Resolve v] s3 else emit [Reject v ErrBadStreamName] s3)"
    by (auto simp: onPublish_def IsClosed_def Let_def split: option.splits if_splits)
  from action_no_promise_calls [OF act, of v]
  obtain es where es: "trace s3 = trace ?s2 @ es" "promiseCalls v es = []"
    by blast
  have "trace ?s2 = trace s"
    by simp
  with es res show ?thesis
    by (auto simp: promiseCalls_def)
qed

section \<open>The claims about the stream state machine\<close>

text \<open>
  Claim C1. The transition function of the code is the table of section 4.5: an entry
  of \<open>StreamFSM\<close> is a row of \<open>spec_table\<close> and conversely (so nothing leaves
  Closed), and a new stream starts in WaitPublish. A call of \<open>action\<close> with an action
  that the table does not allow from the current state returns false and changes nothing
  but the log (one debug line): State, SEHistory, tracks and timer are the same and no
  event is emitted. A call with an allowed action that returns, returns true, only
  appends to SEHistory, and the appended events are a path of the table from the old
  state to the new one (two steps when Publishing is left at once by the last-leave
  recursion, one step otherwise).
\<close>

theorem C1_action_respects_transition_table:
  "(StreamFSM s b = Some t \<longleftrightarrow> (s, b, t) \<in> set spec_table)
   \<and> State (newStream path waitTimeout) = STATE_WAITPUBLISH
   \<and> (StreamFSM (State r) a = None \<longrightarrow>
        action closes a r = Some (False, r\<lparr>trace := trace r @ [LogDebug ''wrong action'']\<rparr>))
   \<and> (\<forall>ok r'. action closes a r = Some (ok, r') \<and> StreamFSM (State r) a \<noteq> None \<longrightarrow>
        ok \<and> (\<exists>evs. evs \<noteq> [] \<and> SEHistory r' = SEHistory r @ evs
                  \<and> follows (State r) evs (State r')))"
proof -
  have "State (newStream path waitTimeout) = STATE_WAITPUBLISH"
    by (simp add: newStream_def Let_def)
  moreover have "StreamFSM (State r) a = None \<longrightarrow>
        action closes a r = Some (False, r\<lparr>trace := trace r @ [LogDebug ''wrong action'']\<rparr>)"
    by (simp add: action_wrong emit_def)
  moreover have "\<forall>ok r'. action closes a r = Some (ok, r') \<and> StreamFSM (State r) a \<noteq> None \<longrightarrow>
        ok \<and> (\<exists>evs. evs \<noteq> [] \<and> SEHistory r' = SEHistory r @ evs
                  \<and> follows (State r) evs (State r'))"
    using action_allowed by blast
  ultimately show ?thesis
    using StreamFSM_spec_table by blast
qed

text \<open>
  The witness of C1: first-enter is refused in the initial state of a stream with an idle
  timeout; publish is accepted there and, with no subscriber, runs through Publishing to
  WaitClose.
\<close>

theorem C1_witness:
  "StreamFSM (State idleStream) ACTION_FIRSTENTER = None
   \<and> action [] ACTION_FIRSTENTER idleStream =
       Some (False, idleStream\<lparr>trace := trace idleStream @ [LogDebug ''wrong action'']\<rparr>)
   \<and> StreamFSM (State idleStream) ACTION_PUBLISH \<noteq> None
   \<and> (\<exists>r'. action [] ACTION_PUBLISH idleStream = Some (True, r')
          \<and> SEHistory r' = [\<lparr>Action = ACTION_PUBLISH, From = STATE_WAITPUBLISH\<rparr>,
                             \<lparr>Action = ACTION_LASTLEAVE, From = STATE_PUBLISHING\<rparr>]
          \<and> State r' = STATE_WAITCLOSE
          \<and> follows (State idleStream) (SEHistory r') (State r'))"
proof -
  have st: "State idleStream = STATE_WAITPUBLISH" "SEHistory idleStream = []"
    by (simp_all add: idleStream_def newStream_def Let_def)
  obtain r' where act: "action [] ACTION_PUBLISH idleStream = Some (True, r')"
    and fields: "State r' = STATE_WAITCLOSE"
      "SEHistory r' = [\<lparr>Action = ACTION_PUBLISH, From = STATE_WAITPUBLISH\<rparr>,
                             \<lparr>Action = ACTION_LASTLEAVE, From = STATE_PUBLISHING\<rparr>]"
    by (simp add: action.simps [of _ ACTION_PUBLISH] action_LASTLEAVE_publishing idleStream_def
        newStream_def Next_def Let_def Len_def Second_def)
  from C1_action_respects_transition_table [of STATE_WAITPUBLISH ACTION_PUBLISH STATE_PUBLISHING
      "''live/cam1''" 10 idleStream ACTION_FIRSTENTER "[]"]
  have wrong: "action [] ACTION_FIRSTENTER idleStream =
       Some (False, idleStream\<lparr>trace := trace idleStream @ [LogDebug ''wrong action'']\<rparr>)"
    by (simp add: st)
  from C1_action_respects_transition_table [of STATE_WAITPUBLISH ACTION_PUBLISH STATE_PUBLISHING
      "''live/cam1''" 10 idleStream ACTION_PUBLISH "[]"] act
  have "\<exists>evs. evs \<noteq> [] \<and> SEHistory r' = SEHistory idleStream @ evs
                  \<and> follows (State idleStream) evs (State r')"
    by (auto simp: st)
  then have "follows (State idleStream) (SEHistory r') (State r')"
    by (auto simp: st)
  with act fields wrong show ?thesis
    by (simp add: st)
qed

text \<open>
  Claim C2, as amended. For every stream whose state is Closed: \<open>Receive\<close> returns
  false and puts nothing on the queue; every call of \<open>action\<close> returns false and
  changes nothing but the log; a bare action taken from the queue changes nothing but
  the log; and every item taken from the queue, if its handling does not panic, leaves
  the state Closed and the history unchanged and adds no entry of a state transition to
  the trace (nothing goes to the event bus, no state event is broadcast to subscribers
  or handed to the publisher). The handling never hangs; it panics only for a video or
  audio track added to a stream that has no publisher.
\<close>

theorem C2_closed_stream_makes_no_transition:
  assumes "State s = STATE_CLOSED"
  shows "Receive (Some s) item = (False, Some s)
     \<and> action closes a s = Some (False, s\<lparr>trace := trace s @ [LogDebug ''wrong action'']\<rparr>)
     \<and> dispatch closes (BareAction a) (s, ps) =
         Inr (s\<lparr>trace := trace s @ [LogDebug ''wrong action'']\<rparr>, ps)
     \<and> ((\<exists>s' ps'. dispatch closes item (s, ps) = Inr (s', ps')
            \<and> State s' = STATE_CLOSED \<and> SEHistory s' = SEHistory s
            \<and> (\<exists>es. trace s' = trace s @ es \<and> (\<forall>e \<in> set es. \<not> stateEventEffect e)))
         \<or> (dispatch closes item (s, ps) = Inl Panic \<and> Publisher s = None
             \<and> (\<exists>v t. item = PromiseTrack v t \<and> Kind t \<noteq> KindData)))"
proof -
  have "Receive (Some s) item = (False, Some s)"
    using assms by (simp add: Receive_def IsClosed_def)
  moreover have "action closes a s = Some (False, s\<lparr>trace := trace s @ [LogDebug ''wrong action'']\<rparr>)"
    using assms by (simp add: action_closed emit_def)
  moreover have "dispatch closes (BareAction a) (s, ps) =
         Inr (s\<lparr>trace := trace s @ [LogDebug ''wrong action'']\<rparr>, ps)"
    using assms by (simp add: actionThen_closed emit_def)
  moreover have "(\<exists>s' ps'. dispatch closes item (s, ps) = Inr (s', ps')
            \<and> State s' = STATE_CLOSED \<and> SEHistory s' = SEHistory s
            \<and> (\<exists>es. trace s' = trace s @ es \<and> (\<forall>e \<in> set es. \<not> stateEventEffect e)))
         \<or> (dispatch closes item (s, ps) = Inl Panic \<and> Publisher s = None
             \<and> (\<exists>v t. item = PromiseTrack v t \<and> Kind t \<noteq> KindData))"
    using dispatch_closed [OF assms, of closes item ps] assms by (auto simp: quietStep_def)
  ultimately show ?thesis by blast
qed

text \<open>The witness of C2: a publish action on a closed stream.\<close>

theorem C2_witness:
  "State closedStream = STATE_CLOSED
   \<and> Receive (Some closedStream) (BareAction ACTION_PUBLISH) = (False, Some closedStream)
   \<and> action [] ACTION_PUBLISH closedStream =
       Some (False, closedStream\<lparr>trace := trace closedStream @ [LogDebug ''wrong action'']\<rparr>)
   \<and> dispatch [] (BareAction ACTION_PUBLISH) (closedStream, []) =
       Inr (closedStream\<lparr>trace := trace closedStream @ [LogDebug ''wrong action'']\<rparr>, [])"
proof -
  have pre: "State closedStream = STATE_CLOSED"
    by (simp add: closedStream_def)
  show ?thesis
    using pre C2_closed_stream_makes_no_transition [OF pre, of "BareAction ACTION_PUBLISH" "[]" ACTION_PUBLISH "[]"]
    by simp
qed

text \<open>
  The counterexample to C2 as stated: on a closed stream, an Unsubscribe taken from the
  queue removes the subscriber from the set and tells the publisher, and a track
  request taken from the queue inserts the track, resolves the promise and arms the
  stopped timer again.
\<close>

theorem C2_counterexample:
  "State closedStream = STATE_CLOSED
   \<and> public (Subscribers closedStream) = [(viewer, noWaits)]
   \<and> (\<exists>s'. dispatch [] (Unsubscribe viewer) (closedStream, []) = Inr (s', [])
          \<and> public (Subscribers s') = []
          \<and> trace s' = trace closedStream @ [PublisherOnEvent (PSubscriber 1)])
   \<and> Map (Tracks closedStream) = [] \<and> timeout closedStream = Stopped
   \<and> (\<exists>s'. dispatch [] (PromiseTrack 9 dataTrack) (closedStream, []) = Inr (s', [])
          \<and> Map (Tracks s') = [(''data'', dataTrack)]
          \<and> timeout s' = Armed (5 * Second)
          \<and> trace s' = trace closedStream @ [Resolve 9])"
  by (simp add: closedStream_def newStream_def Let_def onSuberClose_def SubscribersDelete_def
      viewer_def emit_def Len_def onTrack_def TracksAdd_def dataTrack_def MapAdd_def
      SubscribersOnTrack_def acceptAll_def newlyDone_def Accept_def accepts_def noWaits_def
      waiting_def camPublisher_def AbortWait_def)

text \<open>
  Claim C3 at a publish request that is handled when the stream is already closed: the
  promise is rejected with ErrStreamIsClosed and the handling goes on, so that a second
  call follows on the same promise: Reject with ErrBadStreamName for another publisher,
  Resolve for the publisher the stream already has. Two calls, not one.
\<close>

theorem C3_publish_request_on_closed_stream:
  "State closedStream = STATE_CLOSED
   \<and> (\<exists>s'. dispatch [] (PromisePublisher 7 (Some otherPublisher)) (closedStream, []) = Inr (s', [])
          \<and> trace s' = trace closedStream @
               [Reject 7 ErrStreamIsClosed, LogDebug ''wrong action'', Reject 7 ErrBadStreamName]
          \<and> promiseCalls 7 (trace s') = [Reject 7 ErrStreamIsClosed, Reject 7 ErrBadStreamName])
   \<and> (\<exists>s'. dispatch [] (PromisePublisher 7 (Some camPublisher)) (closedStream, []) = Inr (s', [])
          \<and> trace s' = trace closedStream @
               [Reject 7 ErrStreamIsClosed, LogDebug ''wrong action'', Resolve 7]
          \<and> promiseCalls 7 (trace s') = [Reject 7 ErrStreamIsClosed, Resolve 7])"
  by (simp add: closedStream_def newStream_def Let_def onPublish_def IsClosed_def emit_def
      action_wrong otherPublisher_def camPublisher_def promiseCalls_def)

text \<open>
  Claim C4, as amended. On every transition into Publishing the call returns true and
  the event broadcast to the subscribers is Republish exactly when the history, with the
  event of this transition appended, is longer than 1, and Publish otherwise; so it is
  Publish exactly when the history was empty before (a stream's first transition) and
  Republish on every later entry into Publishing. When the stream stays in Publishing
  (IdleTimeout is not positive, or there is a subscriber) the same event is then sent
  to the event bus and, when a publisher is set, to the publisher. When IdleTimeout is
  positive and there is no subscriber the call goes on with last-leave; what the bus and
  the publisher get in that case is not part of the statement.
\<close>

theorem C4_publish_or_republish:
  assumes "StreamFSM (State r) a = Some STATE_PUBLISHING"
  shows "let e = \<lparr>Action = a, From = State r\<rparr>;
             stateEvent = (if length (SEHistory r @ [e]) > 1 then SErepublish e else SEpublish e)
         in (\<exists>r'. action closes a r = Some (True, r')
               \<and> take 2 (drop (length (trace r)) (trace r')) =
                   [LogTransition (State r) STATE_PUBLISHING a, Broadcast (PEvent stateEvent)]
               \<and> (\<not> (IdleTimeout r > 0 \<and> Len (Subscribers r) = 0) \<longrightarrow>
                    State r' = STATE_PUBLISHING
                    \<and> trace r' = trace r @
                         [LogTransition (State r) STATE_PUBLISHING a,
                          Broadcast (PEvent stateEvent), EventBus stateEvent]
                         @ (case Publisher r of
                              None \<Rightarrow> []
                            | Some p \<Rightarrow> [PublisherOnEvent (PEvent stateEvent)])))
            \<and> (stateEvent = SEpublish e \<longleftrightarrow> SEHistory r = [])
            \<and> (stateEvent = SErepublish e \<longleftrightarrow> SEHistory r \<noteq> [])"
proof (cases "IdleTimeout r > 0 \<and> Len (Subscribers r) = 0")
  case False
  show ?thesis
    using False
    by (simp add: Let_def action_to_publishing_stay [OF assms False] trace_notify
        split: option.splits)
next
  case True
  let ?e = "\<lparr>Action = a, From = State r\<rparr>"
  let ?r2 = "emit [LogTransition (State r) STATE_PUBLISHING a,
              Broadcast (PEvent (if SEHistory r \<noteq> [] then SErepublish ?e else SEpublish ?e))]
          (r\<lparr>State := STATE_PUBLISHING, SEHistory := SEHistory r @ [?e]\<rparr>)"
  have st: "State ?r2 = STATE_PUBLISHING"
    by simp
  show ?thesis
    using True
    by (simp add: Let_def action_to_publishing_leave [OF assms True]
        action_LASTLEAVE_publishing [OF st] trace_notify split: option.splits)
qed

text \<open>
  The witness of C4: the first publish of a new stream emits Publish to subscribers and
  bus; first-enter on a stream in WaitClose, whose history has two events, emits
  Republish to subscribers, bus and publisher.
\<close>

theorem C4_witness:
  "StreamFSM (State (newStream ''live/cam1'' (10 * Millisecond))) ACTION_PUBLISH = Some STATE_PUBLISHING
   \<and> (\<exists>r'. action [] ACTION_PUBLISH (newStream ''live/cam1'' (10 * Millisecond)) = Some (True, r')
         \<and> State r' = STATE_PUBLISHING
         \<and> trace r' = [LogInfo ''created'',
                        LogTransition STATE_WAITPUBLISH STATE_PUBLISHING ACTION_PUBLISH,
                        Broadcast (PEvent (SEpublish \<lparr>Action = ACTION_PUBLISH, From = STATE_WAITPUBLISH\<rparr>)),
                        EventBus (SEpublish \<lparr>Action = ACTION_PUBLISH, From = STATE_WAITPUBLISH\<rparr>)])
   \<and> StreamFSM (State waitCloseStream) ACTION_FIRSTENTER = Some STATE_PUBLISHING
   \<and> (\<exists>r'. action [] ACTION_FIRSTENTER waitCloseStream = Some (True, r')
         \<and> State r' = STATE_PUBLISHING
         \<and> drop (length (trace waitCloseStream)) (trace r') =
             [LogTransition STATE_WAITCLOSE STATE_PUBLISHING ACTION_FIRSTENTER,
              Broadcast (PEvent (SErepublish \<lparr>Action = ACTION_FIRSTENTER, From = STATE_WAITCLOSE\<rparr>)),
              EventBus (SErepublish \<lparr>Action = ACTION_FIRSTENTER, From = STATE_WAITCLOSE\<rparr>),
              PublisherOnEvent (PEvent (SErepublish \<lparr>Action = ACTION_FIRSTENTER, From = STATE_WAITCLOSE\<rparr>))])"
proof -
  let ?s = "newStream ''live/cam1'' (10 * Millisecond)"
  have pre1: "StreamFSM (State ?s) ACTION_PUBLISH = Some STATE_PUBLISHING"
    by (simp add: newStream_def Let_def)
  have pre2: "StreamFSM (State waitCloseStream) ACTION_FIRSTENTER = Some STATE_PUBLISHING"
    by (simp add: waitCloseStream_def)
  have f1: "SEHistory ?s = []" "IdleTimeout ?s = 0" "Publisher ?s = None" "State ?s = STATE_WAITPUBLISH"
    "trace ?s = [LogInfo ''created'']"
    by (simp_all add: newStream_def Let_def)
  have f2: "SEHistory waitCloseStream \<noteq> []" "IdleTimeout waitCloseStream = 0"
    "Publisher waitCloseStream = Some camPublisher" "State waitCloseStream = STATE_WAITCLOSE"
    by (simp_all add: waitCloseStream_def newStream_def Let_def)
  from C4_publish_or_republish [OF pre1, of "[]"]
  have w1: "\<exists>r'. action [] ACTION_PUBLISH ?s = Some (True, r')
         \<and> State r' = STATE_PUBLISHING
         \<and> trace r' = [LogInfo ''created'',
                        LogTransition STATE_WAITPUBLISH STATE_PUBLISHING ACTION_PUBLISH,
                        Broadcast (PEvent (SEpublish \<lparr>Action = ACTION_PUBLISH, From = STATE_WAITPUBLISH\<rparr>)),
                        EventBus (SEpublish \<lparr>Action = ACTION_PUBLISH, From = STATE_WAITPUBLISH\<rparr>)]"
    by (auto simp: Let_def f1)
  from C4_publish_or_republish [OF pre2, of "[]"]
  have w2: "\<exists>r'. action [] ACTION_FIRSTENTER waitCloseStream = Some (True, r')
         \<and> State r' = STATE_PUBLISHING
         \<and> drop (length (trace waitCloseStream)) (trace r') =
             [LogTransition STATE_WAITCLOSE STATE_PUBLISHING ACTION_FIRSTENTER,
              Broadcast (PEvent (SErepublish \<lparr>Action = ACTION_FIRSTENTER, From = STATE_WAITCLOSE\<rparr>)),
              EventBus (SErepublish \<lparr>Action = ACTION_FIRSTENTER, From = STATE_WAITCLOSE\<rparr>),
              PublisherOnEvent (PEvent (SErepublish \<lparr>Action = ACTION_FIRSTENTER, From = STATE_WAITCLOSE\<rparr>))]"
    by (auto simp: Let_def f2)
  show ?thesis
    using pre1 pre2 w1 w2 by blast
qed

text \<open>
  The counterexample to C4 as stated: with IdleTimeout 5 s, a publisher and no
  subscriber, publish is the stream's first transition into Publishing; Publish is
  broadcast to the (empty) subscriber set, and neither the bus nor the publisher gets a
  Publish or Republish event: the next thing they get is WaitClose.
\<close>

theorem C4_counterexample:
  "StreamFSM (State idlePublishedStream) ACTION_PUBLISH = Some STATE_PUBLISHING
   \<and> (\<exists>r'. action [] ACTION_PUBLISH idlePublishedStream = Some (True, r')
         \<and> trace r' =
             [LogInfo ''created'',
              LogTransition STATE_WAITPUBLISH STATE_PUBLISHING ACTION_PUBLISH,
              Broadcast (PEvent (SEpublish \<lparr>Action = ACTION_PUBLISH, From = STATE_WAITPUBLISH\<rparr>)),
              LogTransition STATE_PUBLISHING STATE_WAITCLOSE ACTION_LASTLEAVE,
              EventBus (SEwaitClose \<lparr>Action = ACTION_LASTLEAVE, From = STATE_PUBLISHING\<rparr>),
              PublisherOnEvent (PEvent (SEwaitClose \<lparr>Action = ACTION_LASTLEAVE, From = STATE_PUBLISHING\<rparr>))]
         \<and> EventBus (SEpublish \<lparr>Action = ACTION_PUBLISH, From = STATE_WAITPUBLISH\<rparr>) \<notin> set (trace r')
         \<and> PublisherOnEvent (PEvent (SEpublish \<lparr>Action = ACTION_PUBLISH, From = STATE_WAITPUBLISH\<rparr>))
             \<notin> set (trace r'))"
  by (simp add: action.simps [of _ ACTION_PUBLISH] action_LASTLEAVE_publishing idlePublishedStream_def
      idleStream_def newStream_def Next_def Let_def Len_def Second_def notify_def emit_def
      enterWaitClose_def)

text \<open>
  Claim C5, as amended. On every transition into WaitPublish (the call returns true
  and the new state is WaitPublish) the timer is reset to the publisher's
  WaitCloseTimeout when a publisher is set and that value is not zero; otherwise to the
  WaitTimeout of the subscriber that \<open>Pick\<close> returns, a current subscriber, when there
  is one; otherwise to 10 ms. The subscribers are told of the loss
  (\<open>OnPublisherLost\<close>, and the WaitPublish event is broadcast when there is a
  subscriber). Every track is marked offline when a publisher is set; with no publisher
  the tracks are left as they are.
\<close>

theorem C5_enter_waitpublish:
  assumes "StreamFSM (State r) a = Some STATE_WAITPUBLISH"
  shows "\<exists>r'. action closes a r = Some (True, r') \<and> State r' = STATE_WAITPUBLISH
     \<and> timeout r' =
         Armed (let pubWait = (case Publisher r of None \<Rightarrow> 0 | Some p \<Rightarrow> WaitCloseTimeout p)
                in if pubWait \<noteq> 0 then pubWait
                   else (case Pick (Subscribers r) of
                           Some sub \<Rightarrow> WaitTimeout sub
                         | None \<Rightarrow> 10 * Millisecond))
     \<and> (\<forall>sub. Pick (Subscribers r) = Some sub \<longrightarrow>
            sub \<in> fst ` set (public (Subscribers r) @ internal (Subscribers r)))
     \<and> (Pick (Subscribers r) = None \<longleftrightarrow> Len (Subscribers r) = 0)
     \<and> (Publisher r \<noteq> None \<longrightarrow>
            (\<forall>(n, t) \<in> set (Map (Tracks r')). trackState t = TrackStateOffline)
            \<and> map fst (Map (Tracks r')) = map fst (Map (Tracks r)))
     \<and> (Publisher r = None \<longrightarrow> Tracks r' = Tracks r)
     \<and> trace r' = trace r @
          [LogTransition (State r) STATE_WAITPUBLISH a, OnPublisherLost \<lparr>Action = a, From = State r\<rparr>]
          @ (case Pick (Subscribers r) of
               None \<Rightarrow> []
             | Some sub \<Rightarrow> [Broadcast (PEvent (SEwaitPublish \<lparr>Action = a, From = State r\<rparr> (Publisher r)))])
          @ [LogDebug ''wait publisher'', EventBus (SEwaitPublish \<lparr>Action = a, From = State r\<rparr> (Publisher r))]
          @ (case Publisher r of
               None \<Rightarrow> []
             | Some p \<Rightarrow> [PublisherOnEvent (PEvent (SEwaitPublish \<lparr>Action = a, From = State r\<rparr> (Publisher r)))])"
proof -
  let ?e = "\<lparr>Action = a, From = State r\<rparr>"
  let ?r1 = "emit [LogTransition (State r) STATE_WAITPUBLISH a]
             (r\<lparr>State := STATE_WAITPUBLISH, SEHistory := SEHistory r @ [?e]\<rparr>)"
  let ?r' = "notify (SEwaitPublish ?e (Publisher r)) (enterWaitPublish ?e ?r1)"
  have ret: "action closes a r = Some (True, ?r')"
    using assms by (rule action_to_waitpublish)
  have st: "State ?r' = STATE_WAITPUBLISH"
    by simp
  have tm: "timeout ?r' =
         Armed (let pubWait = (case Publisher r of None \<Rightarrow> 0 | Some p \<Rightarrow> WaitCloseTimeout p)
                in if pubWait \<noteq> 0 then pubWait
                   else (case Pick (Subscribers r) of
                           Some sub \<Rightarrow> WaitTimeout sub
                         | None \<Rightarrow> 10 * Millisecond))"
    by (simp add: enterWaitPublish_timeout Let_def split: option.splits)
  have tr: "Tracks ?r' = (case Publisher r of None \<Rightarrow> Tracks r | Some p \<Rightarrow> setTracksOffline (Tracks r))"
    by (simp add: enterWaitPublish_Tracks split: option.splits)
  have off: "Publisher r \<noteq> None \<longrightarrow>
            (\<forall>(n, t) \<in> set (Map (Tracks ?r')). trackState t = TrackStateOffline)
            \<and> map fst (Map (Tracks ?r')) = map fst (Map (Tracks r))"
    unfolding tr using setTracksOffline_all [of "Tracks r"] setTracksOffline_names [of "Tracks r"]
    by (cases "Publisher r") simp_all
  have keep: "Publisher r = None \<longrightarrow> Tracks ?r' = Tracks r"
    unfolding tr by simp
  have log: "trace ?r' = trace r @
          [LogTransition (State r) STATE_WAITPUBLISH a, OnPublisherLost ?e]
          @ (case Pick (Subscribers r) of
               None \<Rightarrow> []
             | Some sub \<Rightarrow> [Broadcast (PEvent (SEwaitPublish ?e (Publisher r)))])
          @ [LogDebug ''wait publisher'', EventBus (SEwaitPublish ?e (Publisher r))]
          @ (case Publisher r of
               None \<Rightarrow> []
             | Some p \<Rightarrow> [PublisherOnEvent (PEvent (SEwaitPublish ?e (Publisher r)))])"
    by (simp add: trace_notify enterWaitPublish_trace split: option.splits)
  have pick: "\<forall>sub. Pick (Subscribers r) = Some sub \<longrightarrow>
            sub \<in> fst ` set (public (Subscribers r) @ internal (Subscribers r))"
    using Pick_member by blast
  show ?thesis
    by (intro exI [of _ "?r'"] conjI ret st tm pick Pick_None off keep log)
qed

text \<open>
  The witness of C5: a publishing stream whose publisher has WaitCloseTimeout 2 s and
  one online video track loses its publisher.
\<close>

theorem C5_witness:
  "StreamFSM (State publishingStream) ACTION_PUBLISHLOST = Some STATE_WAITPUBLISH
   \<and> (\<exists>r'. action [] ACTION_PUBLISHLOST publishingStream = Some (True, r')
          \<and> State r' = STATE_WAITPUBLISH
          \<and> timeout r' = Armed (2 * Second)
          \<and> Map (Tracks r') = [(''h265'', h265Track\<lparr>trackState := TrackStateOffline\<rparr>)])"
proof -
  have pre: "StreamFSM (State publishingStream) ACTION_PUBLISHLOST = Some STATE_WAITPUBLISH"
    by (simp add: publishingStream_def)
  from C5_enter_waitpublish [OF pre, of "[]"]
  obtain r' where ret: "action [] ACTION_PUBLISHLOST publishingStream = Some (True, r')"
    and st: "State r' = STATE_WAITPUBLISH"
    and tm: "timeout r' =
         Armed (let pubWait = (case Publisher publishingStream of None \<Rightarrow> 0 | Some p \<Rightarrow> WaitCloseTimeout p)
                in if pubWait \<noteq> 0 then pubWait
                   else (case Pick (Subscribers publishingStream) of
                           Some sub \<Rightarrow> WaitTimeout sub
                         | None \<Rightarrow> 10 * Millisecond))"
    by blast
  have "Tracks r' = setTracksOffline (Tracks publishingStream)"
    using ret unfolding action_to_waitpublish [OF pre]
    by (auto simp: enterWaitPublish_Tracks publishingStream_def)
  then have "Map (Tracks r') = [(''h265'', h265Track\<lparr>trackState := TrackStateOffline\<rparr>)]"
    by (simp add: setTracksOffline_def publishingStream_def)
  moreover have "timeout r' = Armed (2 * Second)"
    unfolding tm by (simp add: publishingStream_def camPublisher_def Second_def)
  ultimately show ?thesis
    using pre ret st by blast
qed

text \<open>
  The counterexample to C5 as stated: a publishing stream with no publisher (a data
  track was added to a stream that nobody had published) keeps its track online through
  the transition into WaitPublish.
\<close>

theorem C5_counterexample:
  "\<exists>r'. action [] ACTION_PUBLISHLOST orphanStream = Some (True, r')
      \<and> State orphanStream = STATE_PUBLISHING \<and> State r' = STATE_WAITPUBLISH
      \<and> Map (Tracks r') = [(''data'', dataTrack)]
      \<and> trackState dataTrack = TrackStateOnline"
proof -
  have pre: "StreamFSM (State orphanStream) ACTION_PUBLISHLOST = Some STATE_WAITPUBLISH"
    by (simp add: orphanStream_def)
  show ?thesis
    by (simp add: action_to_waitpublish [OF pre] enterWaitPublish_Tracks)
       (simp add: orphanStream_def newStream_def dataTrack_def)
qed

end
